theory Spec2Isabelle
  imports Complex_Main "HOL-Library.Multiset" "HOL-Library.AList"
begin

section \<open>Data model\<close>

text \<open>
  The repository holds three variants of \<^verbatim>\<open>index.js\<close>: the first part of
  \<^verbatim>\<open>src/index.js\<close> (lines 1--291, suffix \<open>_v1\<close> below), the second part of
  \<^verbatim>\<open>src/index.js\<close> (lines 291--617, suffix \<open>_v2\<close>) and
  \<^verbatim>\<open>src/unnamed/part_001\<close> (suffix \<open>_v3\<close>). Functions whose text is the same in
  all three variants are modelled once, without a suffix.
\<close>

text \<open>
  A JavaScript value as far as the program builds one: \<^verbatim>\<open>null\<close>, a number, a string,
  an array, or an object literal (its own keys in the order they were written).
\<close>

datatype jsval =
    JNull
  | JNum int
  | JStr string
  | JArr "jsval list"
  | JObj "(string \<times> jsval) list"

text \<open>
  One starred repository, the object pushed by \<^verbatim>\<open>getGitHubStarsForUser\<close>. The fields
  \<^verbatim>\<open>id\<close> and \<^verbatim>\<open>size\<close> carry a suffix, the plain names being constants of HOL.
  A field the GitHub API may leave \<^verbatim>\<open>null\<close> (the time of the last push among them) is
  an option, \<open>None\<close> being \<^verbatim>\<open>null\<close>.
\<close>

record star =
  id_star :: int
  title :: string
  url :: string
  starred :: string
  labels :: "string list option"
  stargazers :: int
  forks :: int
  language :: "string option"
  description :: "string option"
  pushed :: "string option"
  watchers :: int
  created :: string
  homepage :: "string option"
  size_star :: int

text \<open>
  One row already in the Notion database, the object \<^verbatim>\<open>{ pageId, starId }\<close> returned by
  \<^verbatim>\<open>getStarsFromNotionDatabase\<close>.
\<close>

record notion_star =
  pageId :: string
  starId :: int

text \<open>
  An element of \<^verbatim>\<open>pagesToUpdate\<close>, the object \<^verbatim>\<open>{ ...star, pageId }\<close>: every field of the
  star, and the page id beside them.
\<close>

record page_update = star +
  update_pageId :: string

text \<open>
  The global object \<^verbatim>\<open>gitHubStarsIdToNotionPageId\<close>: star id to page id. A key that was
  never assigned reads as \<^verbatim>\<open>undefined\<close>, which is \<open>None\<close> here.
\<close>

type_synonym id_map = "int \<rightharpoonup> string"

text \<open>
  JavaScript truthiness of a value that is \<^verbatim>\<open>undefined\<close>, \<^verbatim>\<open>null\<close> or a string: only a
  non-empty string is truthy.
\<close>

definition truthy :: "string option \<Rightarrow> bool" where
  "truthy v = (case v of None \<Rightarrow> False | Some s \<Rightarrow> s \<noteq> [])"

section \<open>Identity index\<close>

text \<open>
  \<^verbatim>\<open>for (const { pageId, starId } of currentStars) gitHubStarsIdToNotionPageId[starId] = pageId\<close>,
  the global object passed in and returned.
\<close>

fun setInitialGitHubToNotionIdMap :: "id_map \<Rightarrow> notion_star list \<Rightarrow> id_map" where
  "setInitialGitHubToNotionIdMap m [] = m"
| "setInitialGitHubToNotionIdMap m (c # cs) =
     setInitialGitHubToNotionIdMap (m(starId c \<mapsto> pageId c)) cs"

section \<open>Reconciler\<close>

record operations =
  pagesToCreate :: "star list"
  pagesToUpdate :: "page_update list"

text \<open>
  The loop of \<^verbatim>\<open>getNotionOperations\<close>, the two arrays being the accumulator. The test
  \<^verbatim>\<open>if (pageId)\<close> is on truthiness: a missing key (\<^verbatim>\<open>undefined\<close>) and the empty string
  both take the \<^verbatim>\<open>else\<close> branch.
\<close>

fun getNotionOperations_loop :: "id_map \<Rightarrow> star list \<Rightarrow> operations \<Rightarrow> operations" where
  "getNotionOperations_loop m [] acc = acc"
| "getNotionOperations_loop m (s # ss) acc =
     (case m (id_star s) of
        Some p \<Rightarrow>
          if p \<noteq> []
          then getNotionOperations_loop m ss
                 (acc\<lparr>pagesToUpdate :=
                    pagesToUpdate acc @ [star.extend s (page_update.fields p)]\<rparr>)
          else getNotionOperations_loop m ss (acc\<lparr>pagesToCreate := pagesToCreate acc @ [s]\<rparr>)
      | None \<Rightarrow>
          getNotionOperations_loop m ss (acc\<lparr>pagesToCreate := pagesToCreate acc @ [s]\<rparr>))"

definition getNotionOperations :: "id_map \<Rightarrow> star list \<Rightarrow> operations" where
  "getNotionOperations m stars =
     getNotionOperations_loop m stars \<lparr>pagesToCreate = [], pagesToUpdate = []\<rparr>"

section \<open>Field mapper\<close>

text \<open>
  A property set is the object the mapper returns: its keys, in the order they were
  written or assigned, each with its value. Assigning \<^verbatim>\<open>item[k] = v\<close> is
  \<^const>\<open>AList.update\<close>: the value is replaced where the key is, and the key is added
  at the end when it is new.
\<close>

type_synonym property_set = "(string \<times> jsval) list"

datatype js_error = TypeError

text \<open>\<^verbatim>\<open>[{ type: "text", text: { content: c } }]\<close>\<close>

definition text_content :: "jsval \<Rightarrow> jsval" where
  "text_content c = JArr [JObj [(''type'', JStr ''text''), (''text'', JObj [(''content'', c)])]]"

text \<open>\<^verbatim>\<open>labels.map(topic => { return { name: topic } })\<close>\<close>

definition topic_names :: "string list \<Rightarrow> jsval" where
  "topic_names ls = JArr (map (\<lambda>topic. JObj [(''name'', JStr topic)]) ls)"

text \<open>A field that is a string or \<^verbatim>\<open>null\<close>, written into an object as it is.\<close>

definition js_of :: "string option \<Rightarrow> jsval" where
  "js_of v = (case v of None \<Rightarrow> JNull | Some s \<Rightarrow> JStr s)"

text \<open>
  The first variant (\<^verbatim>\<open>src/index.js\<close>, lines 228--291). The optional keys are assigned
  one after the other under \<^verbatim>\<open>if\<close>; the value of \<^verbatim>\<open>Homepage\<close> is \<^verbatim>\<open>{ url }\<close>, the
  repository's URL. \<^verbatim>\<open>Object.keys(labels)\<close> throws a TypeError when \<^verbatim>\<open>labels\<close> is
  \<^verbatim>\<open>null\<close>, and is the list of the indices of an array otherwise.
\<close>

definition getPropertiesFromStar_v1 :: "star \<Rightarrow> js_error + property_set" where
  "getPropertiesFromStar_v1 s =
    (let item0 =
       [(''Repository ID'', JObj [(''number'', JNum (id_star s))]),
        (''Name'', JObj [(''title'', text_content (JStr (title s)))]),
        (''Repo URL'', JObj [(''url'', JStr (url s))]),
        (''Starred'', JObj [(''date'', JObj [(''start'', JStr (starred s))])]),
        (''Created'', JObj [(''date'', JObj [(''start'', JStr (created s))])]),
        (''Stargazers'', JObj [(''number'', JNum (stargazers s))]),
        (''Watchers'', JObj [(''number'', JNum (watchers s))]),
        (''Size'', JObj [(''number'', JNum (size_star s))]),
        (''Forks'', JObj [(''number'', JNum (forks s))])];
      item1 =
        (if truthy (homepage s)
         then AList.update ''Homepage'' (JObj [(''url'', JStr (url s))]) item0
         else item0);
      item2 =
        (if truthy (language s)
         then AList.update ''Language''
                (JObj [(''select'', JObj [(''name'', js_of (language s))])]) item1
         else item1);
      item3 =
        (if truthy (description s)
         then AList.update ''Description''
                (JObj [(''rich_text'', text_content (js_of (description s)))]) item2
         else item2)
     in case labels s of
          None \<Rightarrow> Inl TypeError
        | Some ls \<Rightarrow>
            if length ls > 0
            then Inr (AList.update ''Topics'' (JObj [(''multi_select'', topic_names ls)]) item3)
            else Inr item3)"

text \<open>
  The object literal \<^verbatim>\<open>item\<close> of the second variant (\<^verbatim>\<open>src/index.js\<close>, lines 552--612).
  An optional value is \<^verbatim>\<open>null\<close> when the test of its conditional fails. The test
  \<^verbatim>\<open>labels ?\<close> is on truthiness, and every array is truthy, the empty one too.
\<close>

definition item_v2 :: "star \<Rightarrow> property_set" where
  "item_v2 s =
     [(''Name'', JObj [(''title'', text_content (JStr (title s)))]),
      (''Star ID'', JObj [(''number'', JNum (id_star s))]),
      (''URL'', JObj [(''url'', JStr (url s))]),
      (''Starred'', JObj [(''date'', JObj [(''start'', JStr (starred s))])]),
      (''Created'', JObj [(''date'', JObj [(''start'', JStr (created s))])]),
      (''Stargazers'', JObj [(''number'', JNum (stargazers s))]),
      (''Watchers'', JObj [(''number'', JNum (watchers s))]),
      (''Size (Kb)'', JObj [(''number'', JNum (size_star s))]),
      (''Forks'', JObj [(''number'', JNum (forks s))]),
      (''Pushed'', JObj [(''date'', JObj [(''start'', js_of (pushed s))])]),
      (''Homepage'',
         (if truthy (homepage s) \<and> homepage s \<noteq> Some ''''
          then JObj [(''url'', js_of (homepage s))] else JNull)),
      (''Description'',
         (if truthy (description s)
          then JObj [(''rich_text'', text_content (js_of (description s)))] else JNull)),
      (''Language'',
         (if truthy (language s)
          then JObj [(''select'', JObj [(''name'', js_of (language s))])] else JNull)),
      (''Topics'',
         (case labels s of
            Some ls \<Rightarrow> JObj [(''multi_select'', topic_names ls)]
          | None \<Rightarrow> JNull))]"

text \<open>
  \<^verbatim>\<open>return Object.fromEntries(Object.entries(item).filter(([_, v]) => v != null))\<close>:
  the entries whose value is not \<^verbatim>\<open>null\<close>, in order. The keys of \<^verbatim>\<open>item\<close> are pairwise
  different, so \<^verbatim>\<open>Object.fromEntries\<close> keeps every entry it is given.
\<close>

definition getPropertiesFromStar_v2 :: "star \<Rightarrow> property_set" where
  "getPropertiesFromStar_v2 s = filter (\<lambda>(k, v). v \<noteq> JNull) (item_v2 s)"

text \<open>
  The third variant (\<^verbatim>\<open>src/unnamed/part_001\<close>, lines 241--329). \<^verbatim>\<open>Homepage\<close> tests
  \<^verbatim>\<open>homepage\<close> alone, \<^verbatim>\<open>Language\<close> is written without a test. The filtered copy
  \<^verbatim>\<open>Object.fromEntries(...)\<close> is computed and dropped: the function returns \<^verbatim>\<open>item\<close>
  itself, the \<^verbatim>\<open>null\<close> values with it.
\<close>

definition item_v3 :: "star \<Rightarrow> property_set" where
  "item_v3 s =
     [(''ID'', JObj [(''number'', JNum (id_star s))]),
      (''Name'', JObj [(''title'', text_content (JStr (title s)))]),
      (''URL'', JObj [(''url'', JStr (url s))]),
      (''Starred'', JObj [(''date'', JObj [(''start'', JStr (starred s))])]),
      (''Created'', JObj [(''date'', JObj [(''start'', JStr (created s))])]),
      (''Stargazers'', JObj [(''number'', JNum (stargazers s))]),
      (''Watchers'', JObj [(''number'', JNum (watchers s))]),
      (''Size (Kb)'', JObj [(''number'', JNum (size_star s))]),
      (''Forks'', JObj [(''number'', JNum (forks s))]),
      (''Pushed'', JObj [(''date'', JObj [(''start'', js_of (pushed s))])]),
      (''Homepage'',
         (if truthy (homepage s) then JObj [(''url'', js_of (homepage s))] else JNull)),
      (''Description'',
         (if truthy (description s)
          then JObj [(''rich_text'', text_content (js_of (description s)))] else JNull)),
      (''Language'', JObj [(''select'', JObj [(''name'', js_of (language s))])]),
      (''Topics'',
         (case labels s of
            Some ls \<Rightarrow> JObj [(''multi_select'', topic_names ls)]
          | None \<Rightarrow> JNull))]"

definition getPropertiesFromStar_v3 :: "star \<Rightarrow> property_set" where
  "getPropertiesFromStar_v3 s =
     (let dropped = filter (\<lambda>(k, v). v \<noteq> JNull) (item_v3 s) in item_v3 s)"

section \<open>Writer\<close>

text \<open>
  What the run does to the outside, in order: a query of the Notion database (with its
  start cursor), a request for a page of the user's stars, a page created or updated in
  Notion (the database id, the same for the whole run, left out), and a line on the
  console. A line is kept by what it says, not as its text.
\<close>

datatype console_line =
    Missing_environment_variable
  | Caught_error
  | Batch_contents "star list"
  | Completed_batch_size nat
  | Stars_fetched_from_Notion nat
  | Fetching_stars
  | Fetched_stars nat
  | New_stars_to_add nat
  | Stars_to_update nat
  | Database_is_synced

datatype event =
    DatabasesQuery "string option"
  | ListReposStarred
  | PagesCreate property_set
  | PagesUpdate string property_set
  | ConsoleLog console_line
  | ConsoleError console_line

text \<open>
  The events so far, and how many write calls (\<^verbatim>\<open>notion.pages.create\<close>,
  \<^verbatim>\<open>notion.pages.update\<close>) have been made. Whether a write call fails is not decided
  by the program: \<open>rej n\<close> says that the promise of write call number \<open>n\<close> of the
  run (from 0) is rejected.
\<close>

record io =
  trace :: "event list"
  calls :: nat

datatype completion = Normal | Thrown

definition emit :: "event \<Rightarrow> io \<Rightarrow> io" where
  "emit e s = s\<lparr>trace := trace s @ [e]\<rparr>"

definition call :: "event \<Rightarrow> io \<Rightarrow> io" where
  "call e s = s\<lparr>trace := trace s @ [e], calls := calls s + 1\<rparr>"

text \<open>
  \<^verbatim>\<open>batch.map(x => request(x))\<close>: the callback runs for the elements in order, each run
  making its call at once. When the callback throws before it makes the call (the mapper
  of the first variant can), \<^verbatim>\<open>map\<close> stops there, the calls already made staying made.
\<close>

fun map_calls :: "('a \<Rightarrow> js_error + event) \<Rightarrow> 'a list \<Rightarrow> io \<Rightarrow> io \<times> completion" where
  "map_calls f [] s = (s, Normal)"
| "map_calls f (x # xs) s =
     (case f x of
        Inl e \<Rightarrow> (s, Thrown)
      | Inr ev \<Rightarrow> map_calls f xs (call ev s))"

text \<open>
  \<^verbatim>\<open>await Promise.all(promises)\<close> for the write calls number \<open>k\<close> to \<open>k' - 1\<close>: it
  throws when one of them is rejected.
\<close>

definition await_all :: "(nat \<Rightarrow> bool) \<Rightarrow> nat \<Rightarrow> nat \<Rightarrow> completion" where
  "await_all rej k k' = (if list_ex rej [k..<k'] then Thrown else Normal)"

text \<open>
  \<^verbatim>\<open>_.chunk(array, size)\<close> of lodash, which is not a file of the repository. Modelled
  from the library's documentation: the elements split into groups of the length
  \<^verbatim>\<open>size\<close>, in order, the last group holding the elements that remain; no group at
  all for the empty array or a size below 1.
\<close>

function chunk :: "'a list \<Rightarrow> nat \<Rightarrow> 'a list list" where
  "chunk xs n = (if n < 1 \<or> xs = [] then [] else take n xs # chunk (drop n xs) n)"
  by pat_completeness auto
termination
  by (relation "measure (\<lambda>(xs, n). length xs)") auto

declare chunk.simps [simp del]

text \<open>\<^verbatim>\<open>OPERATION_BATCH_SIZE\<close>, in the first and in the second variant.\<close>

definition OPERATION_BATCH_SIZE_v1 :: nat where
  "OPERATION_BATCH_SIZE_v1 = 1"

definition OPERATION_BATCH_SIZE_v2 :: nat where
  "OPERATION_BATCH_SIZE_v2 = 10"

text \<open>
  The loop over the chunks, which \<^verbatim>\<open>createPages\<close> and \<^verbatim>\<open>updatePages\<close> of every variant
  write out in the same way: what is printed before a batch is sent (\<open>before\<close>; only
  \<^verbatim>\<open>createPages\<close> of the second variant prints there), the calls of the batch, the
  wait for all of them, the line \<^verbatim>\<open>Completed batch size\<close>. An exception leaves the loop.
\<close>

fun write_loop ::
  "('a list \<Rightarrow> event list) \<Rightarrow> ('a \<Rightarrow> js_error + event) \<Rightarrow> (nat \<Rightarrow> bool) \<Rightarrow>
     'a list list \<Rightarrow> io \<Rightarrow> io \<times> completion" where
  "write_loop before f rej [] s = (s, Normal)"
| "write_loop before f rej (b # bs) s =
     (case map_calls f b (s\<lparr>trace := trace s @ before b\<rparr>) of
        (s1, Thrown) \<Rightarrow> (s1, Thrown)
      | (s1, Normal) \<Rightarrow>
          (case await_all rej (calls s) (calls s1) of
             Thrown \<Rightarrow> (s1, Thrown)
           | Normal \<Rightarrow>
               write_loop before f rej bs
                 (emit (ConsoleLog (Completed_batch_size (length b))) s1)))"

subsection \<open>First variant: the loop inside \<^verbatim>\<open>try\<close>\<close>

definition create_v1 :: "star \<Rightarrow> js_error + event" where
  "create_v1 s = map_sum id PagesCreate (getPropertiesFromStar_v1 s)"

definition update_v1 :: "page_update \<Rightarrow> js_error + event" where
  "update_v1 u =
     map_sum id (PagesUpdate (update_pageId u)) (getPropertiesFromStar_v1 (star.truncate u))"

text \<open>\<^verbatim>\<open>try { ... } catch (error) { console.error(error) }\<close>: the function itself always
  returns.\<close>

definition try_catch_log :: "io \<times> completion \<Rightarrow> io" where
  "try_catch_log r =
     (case r of
        (s, Thrown) \<Rightarrow> emit (ConsoleError Caught_error) s
      | (s, Normal) \<Rightarrow> s)"

definition createPages_v1 :: "nat \<Rightarrow> (nat \<Rightarrow> bool) \<Rightarrow> star list \<Rightarrow> io \<Rightarrow> io" where
  "createPages_v1 batch_size rej pages s =
     try_catch_log (write_loop (\<lambda>b. []) create_v1 rej (chunk pages batch_size) s)"

definition updatePages_v1 :: "nat \<Rightarrow> (nat \<Rightarrow> bool) \<Rightarrow> page_update list \<Rightarrow> io \<Rightarrow> io" where
  "updatePages_v1 batch_size rej pages s =
     try_catch_log (write_loop (\<lambda>b. []) update_v1 rej (chunk pages batch_size) s)"

subsection \<open>Second variant: no \<^verbatim>\<open>try\<close>\<close>

definition create_v2 :: "star \<Rightarrow> js_error + event" where
  "create_v2 s = Inr (PagesCreate (getPropertiesFromStar_v2 s))"

definition update_v2 :: "page_update \<Rightarrow> js_error + event" where
  "update_v2 u = Inr (PagesUpdate (update_pageId u) (getPropertiesFromStar_v2 (star.truncate u)))"

text \<open>\<^verbatim>\<open>createPages\<close> prints each batch before it sends it; an exception leaves the
  function.\<close>

definition createPages_v2 ::
  "nat \<Rightarrow> (nat \<Rightarrow> bool) \<Rightarrow> star list \<Rightarrow> io \<Rightarrow> io \<times> completion" where
  "createPages_v2 batch_size rej pages s =
     write_loop (\<lambda>b. [ConsoleLog (Batch_contents b)]) create_v2 rej (chunk pages batch_size) s"

definition updatePages_v2 ::
  "nat \<Rightarrow> (nat \<Rightarrow> bool) \<Rightarrow> page_update list \<Rightarrow> io \<Rightarrow> io \<times> completion" where
  "updatePages_v2 batch_size rej pages s =
     write_loop (\<lambda>b. []) update_v2 rej (chunk pages batch_size) s"

section \<open>Readers and the run\<close>

text \<open>
  A page of the Notion database as far as the program reads it: \<^verbatim>\<open>page.id\<close> and the
  number of its id property (\<^verbatim>\<open>"Repository ID"\<close>, \<^verbatim>\<open>"Star ID"\<close> or \<^verbatim>\<open>"ID"\<close>, by variant).
\<close>

record notion_page =
  page_id :: string
  id_number :: int

text \<open>
  What the two services answer during a run: the responses of \<^verbatim>\<open>notion.databases.query\<close>
  in the order of the queries, each \<^verbatim>\<open>{ results, next_cursor }\<close> (a query that finds no
  response left is a request that fails); the pages of the GitHub iterator, each entry
  already in the shape \<^verbatim>\<open>getGitHubStarsForUser\<close> pushes; and which write calls are
  rejected.
\<close>

record world =
  query_responses :: "(notion_page list \<times> string option) list"
  starred_pages :: "star list list"
  rejected :: "nat \<Rightarrow> bool"

text \<open>The \<^verbatim>\<open>while (true)\<close> loop of \<^verbatim>\<open>getStarsFromNotionDatabase\<close>; \<open>None\<close> is the
  rejected promise.\<close>

fun getStarsFromNotionDatabase_loop ::
  "(notion_page list \<times> string option) list \<Rightarrow> string option \<Rightarrow> notion_page list \<Rightarrow> io \<Rightarrow>
     io \<times> notion_page list option" where
  "getStarsFromNotionDatabase_loop [] cursor pages s = (emit (DatabasesQuery cursor) s, None)"
| "getStarsFromNotionDatabase_loop ((results, next_cursor) # rs) cursor pages s =
     (if \<not> truthy next_cursor
      then (emit (DatabasesQuery cursor) s, Some (pages @ results))
      else getStarsFromNotionDatabase_loop rs next_cursor (pages @ results)
             (emit (DatabasesQuery cursor) s))"

definition getStarsFromNotionDatabase ::
  "(notion_page list \<times> string option) list \<Rightarrow> io \<Rightarrow> io \<times> notion_star list option" where
  "getStarsFromNotionDatabase rs s =
     (case getStarsFromNotionDatabase_loop rs None [] s of
        (s1, None) \<Rightarrow> (s1, None)
      | (s1, Some pages) \<Rightarrow>
          (emit (ConsoleLog (Stars_fetched_from_Notion (length pages))) s1,
           Some (map (\<lambda>page. \<lparr>pageId = page_id page, starId = id_number page\<rparr>) pages)))"

text \<open>\<^verbatim>\<open>getGitHubStarsForUser\<close>: one request for each page, the entries of all pages in
  order.\<close>

definition getGitHubStarsForUser :: "star list list \<Rightarrow> io \<Rightarrow> io \<times> star list" where
  "getGitHubStarsForUser pages s =
     (s\<lparr>trace := trace s @ map (\<lambda>page. ListReposStarred) pages\<rparr>, concat pages)"

text \<open>\<^verbatim>\<open>syncNotionDatabaseWithGitHub\<close> of the first variant: both writers return whatever
  happens inside them.\<close>

definition syncNotionDatabaseWithGitHub_v1 :: "id_map \<Rightarrow> world \<Rightarrow> io \<Rightarrow> io \<times> completion" where
  "syncNotionDatabaseWithGitHub_v1 m w s =
     (let (s1, stars) = getGitHubStarsForUser (starred_pages w) (emit (ConsoleLog Fetching_stars) s);
          s2 = emit (ConsoleLog (Fetched_stars (length stars))) s1;
          ops = getNotionOperations m stars;
          s3 = emit (ConsoleLog (New_stars_to_add (length (pagesToCreate ops)))) s2;
          s4 = createPages_v1 OPERATION_BATCH_SIZE_v1 (rejected w) (pagesToCreate ops) s3;
          s5 = emit (ConsoleLog (Stars_to_update (length (pagesToUpdate ops)))) s4;
          s6 = updatePages_v1 OPERATION_BATCH_SIZE_v1 (rejected w) (pagesToUpdate ops) s5
      in (emit (ConsoleLog Database_is_synced) s6, Normal))"

text \<open>\<^verbatim>\<open>syncNotionDatabaseWithGitHub\<close> of the second variant: an exception of a writer
  leaves it.\<close>

definition syncNotionDatabaseWithGitHub_v2 :: "id_map \<Rightarrow> world \<Rightarrow> io \<Rightarrow> io \<times> completion" where
  "syncNotionDatabaseWithGitHub_v2 m w s =
     (let (s1, stars) = getGitHubStarsForUser (starred_pages w) (emit (ConsoleLog Fetching_stars) s);
          s2 = emit (ConsoleLog (Fetched_stars (length stars))) s1;
          ops = getNotionOperations m stars;
          s3 = emit (ConsoleLog (New_stars_to_add (length (pagesToCreate ops)))) s2
      in case createPages_v2 OPERATION_BATCH_SIZE_v2 (rejected w) (pagesToCreate ops) s3 of
           (s4, Thrown) \<Rightarrow> (s4, Thrown)
         | (s4, Normal) \<Rightarrow>
             (case updatePages_v2 OPERATION_BATCH_SIZE_v2 (rejected w) (pagesToUpdate ops)
                     (emit (ConsoleLog (Stars_to_update (length (pagesToUpdate ops)))) s4) of
                (s6, Thrown) \<Rightarrow> (s6, Thrown)
              | (s6, Normal) \<Rightarrow> (emit (ConsoleLog Database_is_synced) s6, Normal)))"

text \<open>
  The top level of the second variant (\<^verbatim>\<open>src/index.js\<close>, lines 300--338), \<open>env\<close> being
  \<^verbatim>\<open>process.env\<close> after \<^verbatim>\<open>dotenv.config()\<close>. \<^verbatim>\<open>process.exit(1)\<close> ends the process at
  once. Otherwise the run is \<^verbatim>\<open>setInitialGitHubToNotionIdMap().then(syncNotionDatabaseWithGitHub)\<close>
  on the empty global object; no handler is attached to the promise it makes.
\<close>

datatype process_end = Exit nat | Settled | Unhandled_rejection

definition environment_complete :: "(string \<rightharpoonup> string) \<Rightarrow> bool" where
  "environment_complete env =
     (truthy (env ''GH_STARS_USER'') \<and> truthy (env ''GH_USER_TOKEN'') \<and>
      truthy (env ''NOTION_KEY'') \<and> truthy (env ''NOTION_DATABASE_ID''))"

definition main_v2 :: "(string \<rightharpoonup> string) \<Rightarrow> world \<Rightarrow> io \<times> process_end" where
  "main_v2 env w =
     (if \<not> environment_complete env
      then (\<lparr>trace = [ConsoleError Missing_environment_variable], calls = 0\<rparr>, Exit 1)
      else
        (case getStarsFromNotionDatabase (query_responses w) \<lparr>trace = [], calls = 0\<rparr> of
           (s1, None) \<Rightarrow> (s1, Unhandled_rejection)
         | (s1, Some currentStars) \<Rightarrow>
             (case syncNotionDatabaseWithGitHub_v2
                     (setInitialGitHubToNotionIdMap Map.empty currentStars) w s1 of
                (s2, Thrown) \<Rightarrow> (s2, Unhandled_rejection)
              | (s2, Normal) \<Rightarrow> (s2, Settled))))"

text \<open>The events that go over the network.\<close>

fun is_network :: "event \<Rightarrow> bool" where
  "is_network (DatabasesQuery c) = True"
| "is_network ListReposStarred = True"
| "is_network (PagesCreate ps) = True"
| "is_network (PagesUpdate p ps) = True"
| "is_network (ConsoleLog l) = False"
| "is_network (ConsoleError l) = False"

section \<open>Example values and the vocabulary of the statements\<close>

definition star_x :: star where
  "star_x = \<lparr>id_star = 42, title = ''x'', url = ''https://github.com/o/x'',
     starred = ''2022-01-02T00:00:00Z'', labels = Some [''cli'', ''notion''],
     stargazers = 5, forks = 1, language = Some ''JavaScript'',
     description = Some ''a tool'', pushed = Some ''2022-01-01T00:00:00Z'', watchers = 5,
     created = ''2021-01-01T00:00:00Z'', homepage = Some ''https://x.example'',
     size_star = 10\<rparr>"

definition star_y :: star where
  "star_y = \<lparr>id_star = 99, title = ''y'', url = ''https://github.com/o/y'',
     starred = ''2022-02-02T00:00:00Z'', labels = Some [],
     stargazers = 0, forks = 0, language = None,
     description = Some [], pushed = Some ''2022-02-01T00:00:00Z'', watchers = 0,
     created = ''2021-02-01T00:00:00Z'', homepage = Some [],
     size_star = 1\<rparr>"

text \<open>The star \<open>star_y\<close> before anything was pushed to it: \<^verbatim>\<open>pushed_at\<close> is \<^verbatim>\<open>null\<close>.\<close>

definition star_unpushed :: star where
  "star_unpushed = star_y\<lparr>pushed := None\<rparr>"

text \<open>The element of \<^verbatim>\<open>pagesToUpdate\<close> for the star \<open>star_x\<close> and the page \<open>p1\<close>.\<close>

definition update_x :: page_update where
  "update_x = star.extend star_x (page_update.fields ''p1'')"

text \<open>The first write call of the run is rejected, no other is.\<close>

definition first_rejected :: "nat \<Rightarrow> bool" where
  "first_rejected n = (n = 0)"

definition none_rejected :: "nat \<Rightarrow> bool" where
  "none_rejected n = False"

text \<open>What a batch leaves in the trace once all its calls are made, and the line that
  follows when none of them was rejected.\<close>

definition batch_sent ::
  "('a list \<Rightarrow> event list) \<Rightarrow> ('a \<Rightarrow> js_error + event) \<Rightarrow> 'a list \<Rightarrow> event list" where
  "batch_sent before f b = before b @ map (\<lambda>x. projr (f x)) b"

definition batch_done ::
  "('a list \<Rightarrow> event list) \<Rightarrow> ('a \<Rightarrow> js_error + event) \<Rightarrow> 'a list \<Rightarrow> event list" where
  "batch_done before f b = batch_sent before f b @ [ConsoleLog (Completed_batch_size (length b))]"

text \<open>A run in which Notion holds the page \<open>p1\<close> for the star 42, GitHub lists the stars
  99 and 42, and the first write call is rejected.\<close>

definition world_first_rejected :: world where
  "world_first_rejected =
     \<lparr>query_responses = [([\<lparr>page_id = ''p1'', id_number = 42\<rparr>], None)],
      starred_pages = [[star_y, star_x]],
      rejected = first_rejected\<rparr>"

text \<open>An environment in which \<^verbatim>\<open>GH_STARS_USER\<close> is not set.\<close>

definition env_without_user :: "string \<rightharpoonup> string" where
  "env_without_user =
     [''GH_USER_TOKEN'' \<mapsto> ''t'', ''NOTION_KEY'' \<mapsto> ''k'', ''NOTION_DATABASE_ID'' \<mapsto> ''d'']"

section \<open>Properties of the identity index\<close>

lemma setInitial_append:
  "setInitialGitHubToNotionIdMap m (xs @ ys) =
     setInitialGitHubToNotionIdMap (setInitialGitHubToNotionIdMap m xs) ys"
  by (induction xs arbitrary: m) simp_all

lemma setInitial_absent:
  "k \<notin> starId ` set cs \<Longrightarrow> setInitialGitHubToNotionIdMap m cs k = m k"
  by (induction cs arbitrary: m) auto

lemma setInitial_dom:
  "dom (setInitialGitHubToNotionIdMap m cs) = dom m \<union> starId ` set cs"
  by (induction cs arbitrary: m) auto

lemma setInitial_last:
  "starId c \<notin> starId ` set ys \<Longrightarrow>
     setInitialGitHubToNotionIdMap m (xs @ c # ys) (starId c) = Some (pageId c)"
  by (simp add: setInitial_append setInitial_absent)

text \<open>
  C5. When the star ids of the rows read from Notion are pairwise different, the index
  built from the empty object maps the star id of every row to the page id of that row,
  its keys are exactly the star ids of the rows, and it has as many keys as the rows have
  different star ids.
\<close>

theorem identity_index_of_unique_snapshot:
  assumes "distinct (map starId cs)"
  shows "(\<forall>c \<in> set cs. setInitialGitHubToNotionIdMap Map.empty cs (starId c) = Some (pageId c))
       \<and> dom (setInitialGitHubToNotionIdMap Map.empty cs) = starId ` set cs
       \<and> card (dom (setInitialGitHubToNotionIdMap Map.empty cs)) = card (starId ` set cs)"
proof (intro conjI ballI)
  fix c assume "c \<in> set cs"
  then obtain xs ys where split: "cs = xs @ c # ys"
    by (auto simp: in_set_conv_decomp)
  with assms have "starId c \<notin> starId ` set ys" by auto
  then show "setInitialGitHubToNotionIdMap Map.empty cs (starId c) = Some (pageId c)"
    unfolding split by (rule setInitial_last)
next
  show d: "dom (setInitialGitHubToNotionIdMap Map.empty cs) = starId ` set cs"
    by (simp add: setInitial_dom)
  then show "card (dom (setInitialGitHubToNotionIdMap Map.empty cs)) = card (starId ` set cs)"
    by simp
qed

theorem identity_index_of_unique_snapshot_witness:
  "distinct (map starId [\<lparr>pageId = ''p1'', starId = 42\<rparr>, \<lparr>pageId = ''p2'', starId = 99\<rparr>])
   \<and> setInitialGitHubToNotionIdMap Map.empty
         [\<lparr>pageId = ''p1'', starId = 42\<rparr>, \<lparr>pageId = ''p2'', starId = 99\<rparr>] 42 = Some ''p1''
   \<and> setInitialGitHubToNotionIdMap Map.empty
         [\<lparr>pageId = ''p1'', starId = 42\<rparr>, \<lparr>pageId = ''p2'', starId = 99\<rparr>] 99 = Some ''p2''
   \<and> card (dom (setInitialGitHubToNotionIdMap Map.empty
         [\<lparr>pageId = ''p1'', starId = 42\<rparr>, \<lparr>pageId = ''p2'', starId = 99\<rparr>])) = 2"
  using identity_index_of_unique_snapshot
          [of "[\<lparr>pageId = ''p1'', starId = 42\<rparr>, \<lparr>pageId = ''p2'', starId = 99\<rparr>]"]
  by simp

text \<open>
  C9. Whatever the index held before, after the rows \<open>xs @ c # ys\<close> have been
  entered, where no row after \<open>c\<close> has the star id of \<open>c\<close>, the index maps that star id
  to the page id of \<open>c\<close>: of several rows with one star id, the last one read wins,
  whatever the rows before it said.
\<close>

theorem identity_index_last_wins:
  "starId c \<notin> starId ` set ys \<Longrightarrow>
     setInitialGitHubToNotionIdMap m (xs @ c # ys) (starId c) = Some (pageId c)"
  by (simp add: setInitial_append setInitial_absent)

theorem identity_index_last_wins_witness:
  "starId \<lparr>pageId = ''p3'', starId = 42\<rparr> \<notin> starId ` set [\<lparr>pageId = ''p4'', starId = 7\<rparr>]
   \<and> setInitialGitHubToNotionIdMap Map.empty
         [\<lparr>pageId = ''p1'', starId = 42\<rparr>, \<lparr>pageId = ''p2'', starId = 42\<rparr>,
          \<lparr>pageId = ''p3'', starId = 42\<rparr>, \<lparr>pageId = ''p4'', starId = 7\<rparr>] 42 = Some ''p3''"
  using identity_index_last_wins
          [of "\<lparr>pageId = ''p3'', starId = 42\<rparr>" "[\<lparr>pageId = ''p4'', starId = 7\<rparr>]" Map.empty
              "[\<lparr>pageId = ''p1'', starId = 42\<rparr>, \<lparr>pageId = ''p2'', starId = 42\<rparr>]"]
  by simp

section \<open>Properties of the reconciler\<close>

lemma id_star_x: "id_star star_x = 42"
  by (simp add: star_x_def)

lemma id_star_y: "id_star star_y = 99"
  by (simp add: star_y_def)

lemma getNotionOperations_loop_eq:
  "getNotionOperations_loop m ss acc =
     acc\<lparr>pagesToCreate := pagesToCreate acc @ filter (\<lambda>s. \<not> truthy (m (id_star s))) ss,
         pagesToUpdate := pagesToUpdate acc @
            map (\<lambda>s. star.extend s (page_update.fields (the (m (id_star s)))))
              (filter (\<lambda>s. truthy (m (id_star s))) ss)\<rparr>"
  by (induction ss arbitrary: acc) (auto simp: truthy_def split: option.splits)

lemma truncate_extend [simp]: "star.truncate (star.extend s (page_update.fields p)) = s"
  by (simp add: star.defs page_update.defs)

lemma id_star_extend [simp]: "id_star (star.extend s (page_update.fields p)) = id_star s"
  by (simp add: star.defs page_update.defs)

lemma update_pageId_extend [simp]: "update_pageId (star.extend s (page_update.fields p)) = p"
  by (simp add: star.defs page_update.defs)

lemma pagesToCreate_eq:
  "pagesToCreate (getNotionOperations m stars) = filter (\<lambda>s. \<not> truthy (m (id_star s))) stars"
  by (simp add: getNotionOperations_def getNotionOperations_loop_eq)

lemma pagesToUpdate_eq:
  "pagesToUpdate (getNotionOperations m stars) =
     map (\<lambda>s. star.extend s (page_update.fields (the (m (id_star s)))))
       (filter (\<lambda>s. truthy (m (id_star s))) stars)"
  by (simp add: getNotionOperations_def getNotionOperations_loop_eq)

lemma pagesToUpdate_stars:
  "map star.truncate (pagesToUpdate (getNotionOperations m stars)) =
     filter (\<lambda>s. truthy (m (id_star s))) stars"
  by (simp add: pagesToUpdate_eq comp_def)

lemma pagesToUpdate_pageIds:
  "list_all (\<lambda>u. m (id_star u) = Some (update_pageId u) \<and> update_pageId u \<noteq> [])
     (pagesToUpdate (getNotionOperations m stars))"
  by (auto simp: pagesToUpdate_eq list_all_iff truthy_def split: option.splits)

lemma setInitial_nonempty:
  "\<forall>c \<in> set cs. pageId c \<noteq> [] \<Longrightarrow> \<forall>k. m k \<noteq> Some [] \<Longrightarrow>
     \<forall>k. setInitialGitHubToNotionIdMap m cs k \<noteq> Some []"
  by (induction cs arbitrary: m) simp_all

text \<open>
  C1. An identity index holds page ids of Notion, and a page id is never the empty
  string: the index is written by \<^verbatim>\<open>setInitialGitHubToNotionIdMap\<close> alone, from the
  \<^verbatim>\<open>page.id\<close> of the pages read (\<open>setInitial_nonempty\<close>). For every list of stars and
  every such index, \<open>pagesToCreate\<close> is the sublist of the stars whose id is not a key of
  the index, \<open>pagesToUpdate\<close> is the sublist of the stars whose id is a key, each
  carrying the page id the index maps its id to, both in the order of the input, and
  every star is in exactly one of the two.
\<close>

theorem getNotionOperations_partition:
  assumes "\<forall>k. m k \<noteq> Some []"
  shows "pagesToCreate (getNotionOperations m stars) = filter (\<lambda>s. id_star s \<notin> dom m) stars
   \<and> map star.truncate (pagesToUpdate (getNotionOperations m stars)) =
        filter (\<lambda>s. id_star s \<in> dom m) stars
   \<and> list_all (\<lambda>u. m (id_star u) = Some (update_pageId u))
        (pagesToUpdate (getNotionOperations m stars))
   \<and> mset (pagesToCreate (getNotionOperations m stars)) +
        mset (map star.truncate (pagesToUpdate (getNotionOperations m stars))) = mset stars"
proof (intro conjI)
  have present: "truthy (m k) \<longleftrightarrow> k \<in> dom m" for k
    using assms by (cases "m k") (auto simp: truthy_def)
  show "pagesToCreate (getNotionOperations m stars) = filter (\<lambda>s. id_star s \<notin> dom m) stars"
    by (simp add: pagesToCreate_eq present)
  show "map star.truncate (pagesToUpdate (getNotionOperations m stars)) =
          filter (\<lambda>s. id_star s \<in> dom m) stars"
    by (simp add: pagesToUpdate_stars present)
  show "list_all (\<lambda>u. m (id_star u) = Some (update_pageId u))
          (pagesToUpdate (getNotionOperations m stars))"
    using pagesToUpdate_pageIds [of m stars] by (simp add: list_all_iff)
  show "mset (pagesToCreate (getNotionOperations m stars)) +
          mset (map star.truncate (pagesToUpdate (getNotionOperations m stars))) = mset stars"
    by (simp add: pagesToCreate_eq pagesToUpdate_stars)
qed

text \<open>
  The scenario of the specification: the database holds the page \<open>p1\<close> for the star 42,
  GitHub lists the stars 42 and 99.
\<close>

theorem getNotionOperations_partition_witness:
  "(\<forall>k. setInitialGitHubToNotionIdMap Map.empty [\<lparr>pageId = ''p1'', starId = 42\<rparr>] k \<noteq> Some [])
   \<and> pagesToCreate (getNotionOperations
      (setInitialGitHubToNotionIdMap Map.empty [\<lparr>pageId = ''p1'', starId = 42\<rparr>])
      [star_x, star_y]) = [star_y]
   \<and> map star.truncate (pagesToUpdate (getNotionOperations
      (setInitialGitHubToNotionIdMap Map.empty [\<lparr>pageId = ''p1'', starId = 42\<rparr>])
      [star_x, star_y])) = [star_x]
   \<and> map update_pageId (pagesToUpdate (getNotionOperations
      (setInitialGitHubToNotionIdMap Map.empty [\<lparr>pageId = ''p1'', starId = 42\<rparr>])
      [star_x, star_y])) = [''p1'']"
  using getNotionOperations_partition
          [of "setInitialGitHubToNotionIdMap Map.empty [\<lparr>pageId = ''p1'', starId = 42\<rparr>]"
              "[star_x, star_y]"]
  by (simp add: id_star_x id_star_y getNotionOperations_def)

section \<open>Properties of the field mapper\<close>

text \<open>
  C6. Whatever the star, the property set of the second variant holds \<open>Name\<close>, the
  number \<open>Star ID\<close>, \<open>URL\<close> and the dates \<open>Starred\<close>, \<open>Created\<close> and \<open>Pushed\<close>, each
  with the value of its field, and the property set of the third variant holds the same
  with the number under \<open>ID\<close>. \<open>Pushed\<close> is there also when the star has no time of a
  last push: its date then starts at \<^verbatim>\<open>null\<close>, and the object around it is not
  \<^verbatim>\<open>null\<close>, so the filter keeps it.
\<close>

theorem getPropertiesFromStar_required_fields:
  "map_of (getPropertiesFromStar_v2 s) ''Name'' =
     Some (JObj [(''title'', text_content (JStr (title s)))])
   \<and> map_of (getPropertiesFromStar_v2 s) ''Star ID'' = Some (JObj [(''number'', JNum (id_star s))])
   \<and> map_of (getPropertiesFromStar_v2 s) ''URL'' = Some (JObj [(''url'', JStr (url s))])
   \<and> map_of (getPropertiesFromStar_v2 s) ''Starred'' =
        Some (JObj [(''date'', JObj [(''start'', JStr (starred s))])])
   \<and> map_of (getPropertiesFromStar_v2 s) ''Created'' =
        Some (JObj [(''date'', JObj [(''start'', JStr (created s))])])
   \<and> map_of (getPropertiesFromStar_v2 s) ''Pushed'' =
        Some (JObj [(''date'', JObj [(''start'', js_of (pushed s))])])
   \<and> map_of (getPropertiesFromStar_v3 s) ''Name'' =
        Some (JObj [(''title'', text_content (JStr (title s)))])
   \<and> map_of (getPropertiesFromStar_v3 s) ''ID'' = Some (JObj [(''number'', JNum (id_star s))])
   \<and> map_of (getPropertiesFromStar_v3 s) ''URL'' = Some (JObj [(''url'', JStr (url s))])
   \<and> map_of (getPropertiesFromStar_v3 s) ''Starred'' =
        Some (JObj [(''date'', JObj [(''start'', JStr (starred s))])])
   \<and> map_of (getPropertiesFromStar_v3 s) ''Created'' =
        Some (JObj [(''date'', JObj [(''start'', JStr (created s))])])
   \<and> map_of (getPropertiesFromStar_v3 s) ''Pushed'' =
        Some (JObj [(''date'', JObj [(''start'', js_of (pushed s))])])"
  by (simp add: getPropertiesFromStar_v2_def item_v2_def getPropertiesFromStar_v3_def item_v3_def)

theorem getPropertiesFromStar_required_fields_witness:
  "pushed star_unpushed = None
   \<and> map_of (getPropertiesFromStar_v2 star_unpushed) ''Star ID'' = Some (JObj [(''number'', JNum 99)])
   \<and> map_of (getPropertiesFromStar_v2 star_unpushed) ''Pushed'' =
        Some (JObj [(''date'', JObj [(''start'', JNull)])])
   \<and> map_of (getPropertiesFromStar_v3 star_unpushed) ''ID'' = Some (JObj [(''number'', JNum 99)])
   \<and> map_of (getPropertiesFromStar_v3 star_unpushed) ''Pushed'' =
        Some (JObj [(''date'', JObj [(''start'', JNull)])])
   \<and> map_of (getPropertiesFromStar_v2 star_x) ''Pushed'' =
        Some (JObj [(''date'', JObj [(''start'', JStr ''2022-01-01T00:00:00Z'')])])"
  using getPropertiesFromStar_required_fields [of star_unpushed]
    getPropertiesFromStar_required_fields [of star_x]
  by (simp add: star_unpushed_def star_y_def star_x_def js_of_def)

text \<open>
  C10. In the first variant, for a star whose homepage is truthy, the mapper returns
  unless \<^verbatim>\<open>labels\<close> is \<^verbatim>\<open>null\<close>, and the \<open>Homepage\<close> of the property set it returns is
  \<^verbatim>\<open>{ url }\<close> with the URL of the repository: the homepage itself is not read again
  after the test.
\<close>

theorem getPropertiesFromStar_v1_homepage_is_url:
  assumes "truthy (homepage s)"
  shows "case getPropertiesFromStar_v1 s of
           Inr ps \<Rightarrow> labels s \<noteq> None \<and> map_of ps ''Homepage'' = Some (JObj [(''url'', JStr (url s))])
         | Inl e \<Rightarrow> labels s = None"
  using assms
  by (auto simp: getPropertiesFromStar_v1_def Let_def update_conv' map_of_map update_conv
           split: option.splits)

theorem getPropertiesFromStar_v1_homepage_is_url_witness:
  "truthy (homepage star_x) \<and> homepage star_x = Some ''https://x.example''
   \<and> (\<exists>ps. getPropertiesFromStar_v1 star_x = Inr ps
          \<and> map_of ps ''Homepage'' = Some (JObj [(''url'', JStr ''https://github.com/o/x'')]))"
  using getPropertiesFromStar_v1_homepage_is_url [of star_x]
  by (auto simp: star_x_def truthy_def split: sum.splits)

text \<open>
  C2, at the star \<open>star_y\<close>, whose description and homepage are the empty string, whose
  topics are the empty array and whose language is \<^verbatim>\<open>null\<close>. The second variant leaves
  out \<open>Description\<close>, \<open>Homepage\<close> and \<open>Language\<close> and keeps \<open>Topics\<close>, with an empty
  selection. The third variant returns all four keys: \<open>Homepage\<close> and \<open>Description\<close>
  with \<^verbatim>\<open>null\<close>, \<open>Language\<close> with the name \<^verbatim>\<open>null\<close>, \<open>Topics\<close> with an empty
  selection. The first variant leaves out all four.
\<close>

theorem getPropertiesFromStar_empty_optional_fields:
  "description star_y = Some '''' \<and> homepage star_y = Some '''' \<and> labels star_y = Some []
   \<and> language star_y = None
   \<and> map (\<lambda>k. map_of (getPropertiesFromStar_v2 star_y) k)
        [''Description'', ''Homepage'', ''Language'', ''Topics''] =
      [None, None, None, Some (JObj [(''multi_select'', JArr [])])]
   \<and> map (\<lambda>k. map_of (getPropertiesFromStar_v3 star_y) k)
        [''Description'', ''Homepage'', ''Language'', ''Topics''] =
      [Some JNull, Some JNull, Some (JObj [(''select'', JObj [(''name'', JNull)])]),
       Some (JObj [(''multi_select'', JArr [])])]
   \<and> (\<exists>ps. getPropertiesFromStar_v1 star_y = Inr ps
        \<and> map (\<lambda>k. map_of ps k) [''Description'', ''Homepage'', ''Language'', ''Topics''] =
            [None, None, None, None])"
  by (simp add: star_y_def truthy_def js_of_def topic_names_def
        getPropertiesFromStar_v1_def getPropertiesFromStar_v2_def item_v2_def
        getPropertiesFromStar_v3_def item_v3_def)

section \<open>Properties of the writer\<close>

lemma chunk_Nil [simp]: "chunk [] n = []"
  by (simp add: chunk.simps)

lemma chunk_step: "0 < n \<Longrightarrow> xs \<noteq> [] \<Longrightarrow> chunk xs n = take n xs # chunk (drop n xs) n"
  by (subst chunk.simps) simp

lemma concat_chunk: "0 < n \<Longrightarrow> concat (chunk xs n) = xs"
proof (induction xs n rule: chunk.induct)
  case (1 xs n)
  show ?case
  proof (cases "xs = []")
    case True
    then show ?thesis by simp
  next
    case False
    with "1.prems" have "chunk xs n = take n xs # chunk (drop n xs) n"
      by (intro chunk_step)
    moreover have "concat (chunk (drop n xs) n) = drop n xs"
      using "1.IH" "1.prems" False by simp
    ultimately show ?thesis by simp
  qed
qed

lemma ceil_add: "0 < n \<Longrightarrow> n < m \<Longrightarrow> (m + n - 1) div n = Suc ((m - n + n - 1) div n)" for m n :: nat
proof -
  assume n: "0 < n" and m: "n < m"
  from n m have e: "m + n - 1 = (m - 1) + n" by linarith
  have "(m + n - 1) div n = ((m - 1) + n) div n" by (simp only: e)
  also have "\<dots> = Suc ((m - 1) div n)" using n by simp
  also have "m - 1 = m - n + n - 1" using m by linarith
  finally show ?thesis .
qed

lemma ceil_small: "0 < m \<Longrightarrow> m \<le> n \<Longrightarrow> (m + n - 1) div n = Suc 0" for m n :: nat
  by (rule div_nat_eqI) simp_all


lemma length_chunk: "0 < n \<Longrightarrow> length (chunk xs n) = (length xs + n - 1) div n"
proof (induction xs n rule: chunk.induct)
  case (1 xs n)
  show ?case
  proof (cases "xs = []")
    case True
    with "1.prems" show ?thesis by simp
  next
    case False
    from "1.prems" False have step: "chunk xs n = take n xs # chunk (drop n xs) n"
      by (rule chunk_step)
    have ih: "length (chunk (drop n xs) n) = (length xs - n + n - 1) div n"
      using "1.IH" "1.prems" False by simp
    show ?thesis
    proof (cases "length xs \<le> n")
      case True
      with False "1.prems" have "(length xs + n - 1) div n = Suc 0"
        using ceil_small [of "length xs" n] by simp
      moreover from True "1.prems" have "(length xs - n + n - 1) div n = 0" by simp
      ultimately show ?thesis using ih unfolding step by simp
    next
      case False
      then have "(length xs + n - 1) div n = Suc ((length xs - n + n - 1) div n)"
        using "1.prems" ceil_add [of n "length xs"] by simp
      with ih show ?thesis unfolding step by simp
    qed
  qed
qed

lemma nth_chunk:
  "0 < n \<Longrightarrow> i < length (chunk xs n) \<Longrightarrow> chunk xs n ! i = take n (drop (i * n) xs)"
proof (induction xs n arbitrary: i rule: chunk.induct)
  case (1 xs n)
  from "1.prems" have ne: "xs \<noteq> []" by auto
  from "1.prems"(1) ne have step: "chunk xs n = take n xs # chunk (drop n xs) n"
    by (rule chunk_step)
  show ?case
  proof (cases i)
    case 0
    show ?thesis unfolding step 0 by simp
  next
    case (Suc j)
    with "1.prems" have "j < length (chunk (drop n xs) n)" unfolding step by simp
    with "1.IH" [of j] "1.prems"(1) ne
    have "chunk (drop n xs) n ! j = take n (drop (j * n) (drop n xs))" by simp
    then show ?thesis unfolding step Suc by (simp add: add.commute)
  qed
qed

lemma ceiling_nat_div:
  assumes "0 < n"
  shows "nat \<lceil>real m / real n\<rceil> = (m + n - 1) div n"
proof -
  define q where "q = (m + n - 1) div n"
  have "q * n \<le> m + n - 1"
    unfolding q_def by (rule div_times_less_eq_dividend)
  with assms have upper: "q * n < m + n" by linarith
  have "m + n - 1 < n + q * n"
    unfolding q_def using assms by (rule dividend_less_div_times)
  then have lower: "m \<le> q * n" by linarith
  from upper have "real (q * n) < real (m + n)" by (simp only: of_nat_less_iff)
  then have "(real q - 1) * real n < real m" by (simp add: algebra_simps)
  with assms have a: "real_of_int (int q) - 1 < real m / real n"
    by (simp add: pos_less_divide_eq)
  from lower have "real m \<le> real (q * n)" by (simp only: of_nat_le_iff)
  with assms have b: "real m / real n \<le> real_of_int (int q)"
    by (simp add: pos_divide_le_eq)
  from a b have "\<lceil>real m / real n\<rceil> = int q" by (rule ceiling_unique)
  then show ?thesis by (simp add: q_def)
qed


lemma ceil_cases:
  fixes m n :: nat
  assumes "0 < n"
  shows "(m + n - 1) div n = (if m mod n = 0 then m div n else Suc (m div n))"
proof -
  define k where "k = m div n"
  define r where "r = m mod n"
  have decomp: "m = n * k + r"
    unfolding k_def r_def by (rule mult_div_mod_eq [symmetric])
  from assms have lt: "r < n"
    unfolding r_def by (rule mod_less_divisor)
  have mult: "n * Suc k = n * k + n" "n * Suc (Suc k) = n * k + n + n"
    by simp_all
  show ?thesis
  proof (cases "r = 0")
    case True
    with decomp have m: "m = n * k" by simp
    from assms have "n * k \<le> n * k + n - 1" and "n * k + n - 1 < n * Suc k"
      by simp_all
    then have "(n * k + n - 1) div n = k" by (rule div_nat_eqI)
    with True show ?thesis unfolding m [symmetric] by (simp add: k_def r_def)
  next
    case False
    then obtain r' where r': "r = Suc r'" by (cases r) simp_all
    with lt have "r' < n" by simp
    then have "n * Suc k \<le> n * k + Suc r' + n - 1" and "n * k + Suc r' + n - 1 < n * Suc (Suc k)"
      by simp_all
    then have "(n * k + Suc r' + n - 1) div n = Suc k" by (rule div_nat_eqI)
    with False show ?thesis unfolding decomp [unfolded r', symmetric] by (simp add: k_def r_def)
  qed
qed

lemma length_nth_chunk:
  assumes "0 < n" and "Suc i < length (chunk xs n)"
  shows "length (chunk xs n ! i) = n"
proof -
  have "length (chunk xs n) * n < length xs + n"
    unfolding length_chunk [OF assms(1)]
    using div_times_less_eq_dividend [of "length xs + n - 1" n] assms(1) by linarith
  moreover from assms(2) have "Suc (Suc i) * n \<le> length (chunk xs n) * n"
    by (intro mult_le_mono1) simp
  ultimately have "Suc i * n \<le> length xs" by simp
  then have "n \<le> length xs - i * n" by simp
  moreover from assms have "chunk xs n ! i = take n (drop (i * n) xs)"
    by (intro nth_chunk) simp_all
  ultimately show ?thesis by simp
qed

lemma length_last_chunk:
  assumes "0 < n" and "xs \<noteq> []"
  shows "length (last (chunk xs n)) = (if length xs mod n = 0 then n else length xs mod n)"
proof -
  let ?N = "length xs"
  let ?L = "length (chunk xs n)"
  have L: "?L = (if ?N mod n = 0 then ?N div n else Suc (?N div n))"
    by (simp only: length_chunk [OF assms(1)] ceil_cases [OF assms(1)])
  from assms have pos: "0 < ?L"
    by (simp add: chunk_step)
  then have "last (chunk xs n) = chunk xs n ! (?L - 1)"
    by (simp add: last_conv_nth)
  also from assms(1) pos have "\<dots> = take n (drop ((?L - 1) * n) xs)"
    by (intro nth_chunk) simp_all
  finally have len: "length (last (chunk xs n)) = min (?N - (?L - 1) * n) n"
    by simp
  show ?thesis
  proof (cases "?N mod n = 0")
    case True
    then have "n dvd ?N" by (rule mod_0_imp_dvd)
    then have N: "n * (?N div n) = ?N" by (rule dvd_mult_div_cancel)
    from True L have "?L = ?N div n" by simp
    with pos obtain k where k: "?N div n = Suc k" by (cases "?N div n") simp_all
    with N have "?N = n + k * n" by (simp add: algebra_simps)
    moreover from k \<open>?L = ?N div n\<close> have "?L - 1 = k" by simp
    ultimately have "?N - (?L - 1) * n = n" by (simp only: add_diff_cancel_right')
    with len True show ?thesis by simp
  next
    case False
    with L have "?L - 1 = ?N div n" by simp
    then have "?N - (?L - 1) * n = ?N mod n"
      by (simp only: minus_div_mult_eq_mod)
    with len False assms(1) show ?thesis by simp
  qed
qed

lemma map_calls_all:
  "\<forall>x \<in> set b. \<not> isl (f x) \<Longrightarrow>
     map_calls f b s =
       (\<lparr>trace = trace s @ map (\<lambda>x. projr (f x)) b, calls = calls s + length b\<rparr>, Normal)"
proof (induction b arbitrary: s)
  case Nil
  show ?case by simp
next
  case (Cons x b)
  then obtain ev where ev: "f x = Inr ev" by (cases "f x") auto
  with Cons.prems Cons.IH [of "call ev s"] show ?case by (simp add: call_def)
qed

lemma await_all_Normal:
  "await_all rej k (k + n) = Normal \<longleftrightarrow> (\<forall>i<n. \<not> rej (k + i))"
proof -
  have "(\<exists>j\<in>{k..<k + n}. rej j) \<longleftrightarrow> (\<exists>i<n. rej (k + i))"
  proof
    assume "\<exists>j\<in>{k..<k + n}. rej j"
    then obtain j where "k \<le> j" "j < k + n" "rej j" by auto
    then have "j - k < n" "rej (k + (j - k))" by simp_all
    then show "\<exists>i<n. rej (k + i)" by blast
  next
    assume "\<exists>i<n. rej (k + i)"
    then show "\<exists>j\<in>{k..<k + n}. rej j" by auto
  qed
  then show ?thesis by (auto simp: await_all_def list_ex_iff)
qed

lemma await_all_cases:
  "await_all rej k k' = Thrown \<or> await_all rej k k' = Normal"
  by (simp add: await_all_def)

lemma write_loop_step_ok:
  assumes "\<forall>x \<in> set b. \<not> isl (f x)" and "\<forall>i<length b. \<not> rej (calls s + i)"
  shows "write_loop before f rej (b # bs) s =
           write_loop before f rej bs
             \<lparr>trace = trace s @ batch_done before f b, calls = calls s + length b\<rparr>"
proof -
  from assms(2) have "await_all rej (calls s) (calls s + length b) = Normal"
    by (simp only: await_all_Normal)
  then show ?thesis
    by (simp add: map_calls_all [OF assms(1)] emit_def batch_done_def batch_sent_def)
qed

lemma write_loop_step_rejected:
  assumes "\<forall>x \<in> set b. \<not> isl (f x)" and "\<exists>i<length b. rej (calls s + i)"
  shows "write_loop before f rej (b # bs) s =
           (\<lparr>trace = trace s @ batch_sent before f b, calls = calls s + length b\<rparr>, Thrown)"
proof -
  from assms(2) have "await_all rej (calls s) (calls s + length b) \<noteq> Normal"
    by (simp only: await_all_Normal) simp
  with await_all_cases [of rej "calls s" "calls s + length b"]
  have "await_all rej (calls s) (calls s + length b) = Thrown" by blast
  then show ?thesis
    by (simp add: map_calls_all [OF assms(1)] batch_sent_def)
qed

lemma write_loop_all_ok:
  "\<forall>x \<in> set (concat bs). \<not> isl (f x) \<Longrightarrow> \<forall>i<length (concat bs). \<not> rej (calls s + i) \<Longrightarrow>
     write_loop before f rej (bs @ rest) s =
       write_loop before f rej rest
         \<lparr>trace = trace s @ concat (map (batch_done before f) bs),
          calls = calls s + length (concat bs)\<rparr>"
proof (induction bs arbitrary: s)
  case Nil
  show ?case by (cases s) simp
next
  case (Cons b bs)
  let ?s1 = "\<lparr>trace = trace s @ batch_done before f b, calls = calls s + length b\<rparr>"
  from Cons.prems have b_ok: "\<forall>x \<in> set b. \<not> isl (f x)" and b_acc: "\<forall>i<length b. \<not> rej (calls s + i)"
    by auto
  have rest_acc: "\<forall>i<length (concat bs). \<not> rej (calls ?s1 + i)"
  proof (intro allI impI)
    fix i assume "i < length (concat bs)"
    then have "length b + i < length (concat (b # bs))" by simp
    with Cons.prems(2) have "\<not> rej (calls s + (length b + i))" by blast
    then show "\<not> rej (calls ?s1 + i)" by (simp add: add.assoc)
  qed
  from Cons.prems(1) have "\<forall>x \<in> set (concat bs). \<not> isl (f x)" by auto
  from Cons.IH [OF this rest_acc]
  have "write_loop before f rej (bs @ rest) ?s1 =
          write_loop before f rej rest
            \<lparr>trace = trace s @ concat (map (batch_done before f) (b # bs)),
             calls = calls s + length (concat (b # bs))\<rparr>"
    by (simp add: add.assoc)
  then show ?case
    by (simp only: append_Cons write_loop_step_ok [OF b_ok b_acc])
qed


lemma write_loop_ok:
  assumes "\<forall>x \<in> set (concat bs). \<not> isl (f x)" and "\<forall>i<length (concat bs). \<not> rej (calls s + i)"
  shows "write_loop before f rej bs s =
           (\<lparr>trace = trace s @ concat (map (batch_done before f) bs),
             calls = calls s + length (concat bs)\<rparr>, Normal)"
  using write_loop_all_ok [OF assms, of before "[]"] by simp

lemma write_loop_rejected:
  assumes "\<forall>x \<in> set (concat (pre @ [b])). \<not> isl (f x)"
      and "\<forall>i<length (concat pre). \<not> rej (calls s + i)"
      and "\<exists>i<length b. rej (calls s + length (concat pre) + i)"
  shows "write_loop before f rej (pre @ b # post) s =
           (\<lparr>trace = trace s @ concat (map (batch_done before f) pre) @ batch_sent before f b,
             calls = calls s + length (concat pre) + length b\<rparr>, Thrown)"
proof -
  let ?s1 = "\<lparr>trace = trace s @ concat (map (batch_done before f) pre),
              calls = calls s + length (concat pre)\<rparr>"
  from assms(1) have pre_ok: "\<forall>x \<in> set (concat pre). \<not> isl (f x)"
    and b_ok: "\<forall>x \<in> set b. \<not> isl (f x)" by auto
  from assms(3) have "\<exists>i<length b. rej (calls ?s1 + i)" by simp
  with b_ok have "write_loop before f rej (b # post) ?s1 =
      (\<lparr>trace = trace ?s1 @ batch_sent before f b, calls = calls ?s1 + length b\<rparr>, Thrown)"
    by (rule write_loop_step_rejected)
  then show ?thesis
    by (simp add: write_loop_all_ok [OF pre_ok assms(2)])
qed

lemma not_isl_create_v2 [simp]: "\<not> isl (create_v2 x)" "\<not> isl (update_v2 u)"
  by (simp_all add: create_v2_def update_v2_def)

lemma isl_create_v1: "isl (create_v1 x) \<longleftrightarrow> labels x = None"
  by (simp add: create_v1_def getPropertiesFromStar_v1_def Let_def isl_map_sum split: option.splits)

lemma batch_done_create_v2:
  "batch_done (\<lambda>b. [ConsoleLog (Batch_contents b)]) create_v2 =
     (\<lambda>b. ConsoleLog (Batch_contents b) #
          map (\<lambda>x. PagesCreate (getPropertiesFromStar_v2 x)) b @
          [ConsoleLog (Completed_batch_size (length b))])"
  by (rule ext) (simp add: batch_done_def batch_sent_def create_v2_def)

lemma batch_done_update_v2:
  "batch_done (\<lambda>b. []) update_v2 =
     (\<lambda>b. map (\<lambda>u. PagesUpdate (update_pageId u) (getPropertiesFromStar_v2 (star.truncate u))) b @
          [ConsoleLog (Completed_batch_size (length b))])"
  by (rule ext) (simp add: batch_done_def batch_sent_def update_v2_def)

text \<open>
  C3, as the code has it. For a batch size \<open>B > 0\<close> and \<open>N\<close> operations, the chunks the writer loops over
  are \<open>\<lceil>N / B\<rceil>\<close> in number, are the operations in their order, and have the size \<open>B\<close>
  each but for the last, whose size is \<open>N mod B\<close>, or \<open>B\<close> when \<open>B\<close> divides \<open>N\<close>.
  When no write call is rejected, \<^verbatim>\<open>createPages\<close> and \<^verbatim>\<open>updatePages\<close> of the second
  variant send exactly these batches, one call for each operation, and print the
  completion line after each of them.
\<close>

theorem writer_batches:
  assumes "0 < B"
  shows "length (chunk ops B) = nat \<lceil>real (length ops) / real B\<rceil>
    \<and> concat (chunk ops B) = ops
    \<and> (\<forall>i. Suc i < length (chunk ops B) \<longrightarrow> length (chunk ops B ! i) = B)
    \<and> (ops \<noteq> [] \<longrightarrow>
         length (last (chunk ops B)) = (if length ops mod B = 0 then B else length ops mod B))
    \<and> ((\<forall>i<length stars. \<not> rej (calls s + i)) \<longrightarrow>
         createPages_v2 B rej stars s =
           (\<lparr>trace = trace s @
               concat (map (\<lambda>b. ConsoleLog (Batch_contents b) #
                                 map (\<lambda>x. PagesCreate (getPropertiesFromStar_v2 x)) b @
                                 [ConsoleLog (Completed_batch_size (length b))])
                         (chunk stars B)),
             calls = calls s + length stars\<rparr>, Normal))
    \<and> ((\<forall>i<length updates. \<not> rej (calls s + i)) \<longrightarrow>
         updatePages_v2 B rej updates s =
           (\<lparr>trace = trace s @
               concat (map (\<lambda>b. map (\<lambda>u. PagesUpdate (update_pageId u)
                                           (getPropertiesFromStar_v2 (star.truncate u))) b @
                                 [ConsoleLog (Completed_batch_size (length b))])
                         (chunk updates B)),
             calls = calls s + length updates\<rparr>, Normal))"
proof (intro conjI allI impI)
  show "length (chunk ops B) = nat \<lceil>real (length ops) / real B\<rceil>"
    by (simp only: length_chunk [OF assms] ceiling_nat_div [OF assms])
  show "concat (chunk ops B) = ops"
    using assms by (rule concat_chunk)
  show "length (chunk ops B ! i) = B" if "Suc i < length (chunk ops B)" for i
    using assms that by (rule length_nth_chunk)
  show "length (last (chunk ops B)) = (if length ops mod B = 0 then B else length ops mod B)"
    if "ops \<noteq> []"
    using assms that by (rule length_last_chunk)
next
  assume "\<forall>i<length stars. \<not> rej (calls s + i)"
  then have "\<forall>i<length (concat (chunk stars B)). \<not> rej (calls s + i)"
    by (simp only: concat_chunk [OF assms])
  then have "createPages_v2 B rej stars s =
      (\<lparr>trace = trace s @
          concat (map (batch_done (\<lambda>b. [ConsoleLog (Batch_contents b)]) create_v2) (chunk stars B)),
        calls = calls s + length (concat (chunk stars B))\<rparr>, Normal)"
    unfolding createPages_v2_def by (intro write_loop_ok) simp_all
  then show "createPages_v2 B rej stars s =
      (\<lparr>trace = trace s @
          concat (map (\<lambda>b. ConsoleLog (Batch_contents b) #
                            map (\<lambda>x. PagesCreate (getPropertiesFromStar_v2 x)) b @
                            [ConsoleLog (Completed_batch_size (length b))])
                    (chunk stars B)),
        calls = calls s + length stars\<rparr>, Normal)"
    by (simp only: concat_chunk [OF assms] batch_done_create_v2)
next
  assume "\<forall>i<length updates. \<not> rej (calls s + i)"
  then have "\<forall>i<length (concat (chunk updates B)). \<not> rej (calls s + i)"
    by (simp only: concat_chunk [OF assms])
  then have "updatePages_v2 B rej updates s =
      (\<lparr>trace = trace s @
          concat (map (batch_done (\<lambda>b. []) update_v2) (chunk updates B)),
        calls = calls s + length (concat (chunk updates B))\<rparr>, Normal)"
    unfolding updatePages_v2_def by (intro write_loop_ok) simp_all
  then show "updatePages_v2 B rej updates s =
      (\<lparr>trace = trace s @
          concat (map (\<lambda>b. map (\<lambda>u. PagesUpdate (update_pageId u)
                                      (getPropertiesFromStar_v2 (star.truncate u))) b @
                            [ConsoleLog (Completed_batch_size (length b))])
                    (chunk updates B)),
        calls = calls s + length updates\<rparr>, Normal)"
    by (simp only: concat_chunk [OF assms] batch_done_update_v2)
qed

theorem writer_batches_witness:
  "(0::nat) < 2
   \<and> length (chunk [1, 2, 3, 4, 5 :: int] 2) = 3
   \<and> map length (chunk [1, 2, 3, 4, 5 :: int] 2) = [2, 2, 1]
   \<and> createPages_v2 2 none_rejected [star_x, star_y, star_x] \<lparr>trace = [], calls = 0\<rparr> =
       (\<lparr>trace =
           [ConsoleLog (Batch_contents [star_x, star_y]),
            PagesCreate (getPropertiesFromStar_v2 star_x),
            PagesCreate (getPropertiesFromStar_v2 star_y),
            ConsoleLog (Completed_batch_size 2),
            ConsoleLog (Batch_contents [star_x]),
            PagesCreate (getPropertiesFromStar_v2 star_x),
            ConsoleLog (Completed_batch_size 1)],
          calls = 3\<rparr>, Normal)"
  using writer_batches [where B = 2 and ops = "[1, 2, 3, 4, 5 :: int]" and rej = none_rejected
          and stars = "[star_x, star_y, star_x]" and s = "\<lparr>trace = [], calls = 0\<rparr>"
          and updates = "[]"]
  by (simp add: none_rejected_def chunk.simps)

text \<open>
  The claim as the specification words it fails when a write call is rejected: of the two
  batches of two stars with the batch size 1, \<^verbatim>\<open>createPages\<close> of the second variant sends
  the first, and the exception leaves the loop before the second.
\<close>

theorem writer_batches_rejected_counterexample:
  "nat \<lceil>real (length [star_x, star_y]) / real (1 :: nat)\<rceil> = 2
   \<and> chunk [star_x, star_y] 1 = [[star_x], [star_y]]
   \<and> createPages_v2 1 first_rejected [star_x, star_y] \<lparr>trace = [], calls = 0\<rparr> =
       (\<lparr>trace = [ConsoleLog (Batch_contents [star_x]),
                  PagesCreate (getPropertiesFromStar_v2 star_x)],
          calls = 1\<rparr>, Thrown)"
  by (simp add: chunk.simps createPages_v2_def create_v2_def call_def await_all_def
        first_rejected_def)

lemma projr_create_v1:
  "labels x \<noteq> None \<Longrightarrow> projr (create_v1 x) = PagesCreate (projr (getPropertiesFromStar_v1 x))"
  by (cases "getPropertiesFromStar_v1 x")
     (auto simp: create_v1_def getPropertiesFromStar_v1_def Let_def split: option.splits if_splits)

lemma batch_sent_create_v1:
  "\<forall>x \<in> set b. labels x \<noteq> None \<Longrightarrow>
     batch_sent (\<lambda>b. []) create_v1 b = map (\<lambda>x. PagesCreate (projr (getPropertiesFromStar_v1 x))) b"
  by (simp add: batch_sent_def projr_create_v1)

lemma batch_done_create_v1:
  "\<forall>x \<in> set (concat bs). labels x \<noteq> None \<Longrightarrow>
     concat (map (batch_done (\<lambda>b. []) create_v1) bs) =
       concat (map (\<lambda>b. map (\<lambda>x. PagesCreate (projr (getPropertiesFromStar_v1 x))) b @
                          [ConsoleLog (Completed_batch_size (length b))]) bs)"
  by (induction bs) (simp_all add: batch_done_def batch_sent_create_v1)

lemma isl_update_v1: "isl (update_v1 u) \<longleftrightarrow> labels u = None"
  by (simp add: update_v1_def getPropertiesFromStar_v1_def Let_def isl_map_sum star.defs
           split: option.splits)

lemma projr_update_v1:
  "labels u \<noteq> None \<Longrightarrow>
     projr (update_v1 u) =
       PagesUpdate (update_pageId u) (projr (getPropertiesFromStar_v1 (star.truncate u)))"
  by (cases "getPropertiesFromStar_v1 (star.truncate u)")
     (auto simp: update_v1_def getPropertiesFromStar_v1_def Let_def star.defs
           split: option.splits if_splits)

lemma batch_sent_update_v1:
  "\<forall>u \<in> set b. labels u \<noteq> None \<Longrightarrow>
     batch_sent (\<lambda>b. []) update_v1 b =
       map (\<lambda>u. PagesUpdate (update_pageId u)
                  (projr (getPropertiesFromStar_v1 (star.truncate u)))) b"
  by (simp add: batch_sent_def projr_update_v1)

lemma batch_done_update_v1:
  "\<forall>u \<in> set (concat bs). labels u \<noteq> None \<Longrightarrow>
     concat (map (batch_done (\<lambda>b. []) update_v1) bs) =
       concat (map (\<lambda>b. map (\<lambda>u. PagesUpdate (update_pageId u)
                                    (projr (getPropertiesFromStar_v1 (star.truncate u)))) b @
                          [ConsoleLog (Completed_batch_size (length b))]) bs)"
  by (induction bs) (simp_all add: batch_done_def batch_sent_update_v1)

lemma chunk_parts:
  assumes "chunk xs B = pre @ b # post"
  shows "set (concat pre) \<subseteq> set xs" and "set b \<subseteq> set xs"
proof -
  have "0 < B"
  proof (rule ccontr)
    assume "\<not> 0 < B"
    then have "chunk xs B = []" by (subst chunk.simps) simp
    with assms show False by simp
  qed
  then have "concat (pre @ b # post) = xs"
    using concat_chunk [of B xs] assms by simp
  then show "set (concat pre) \<subseteq> set xs" and "set b \<subseteq> set xs" by auto
qed

lemma createPages_v2_rejected:
  assumes "chunk pages B = pre @ b # post"
    and "\<forall>i<length (concat pre). \<not> rej (calls s + i)"
    and "\<exists>i<length b. rej (calls s + length (concat pre) + i)"
  shows "createPages_v2 B rej pages s =
           (\<lparr>trace = trace s @
               concat (map (\<lambda>b. ConsoleLog (Batch_contents b) #
                                 map (\<lambda>x. PagesCreate (getPropertiesFromStar_v2 x)) b @
                                 [ConsoleLog (Completed_batch_size (length b))]) pre) @
               ConsoleLog (Batch_contents b) # map (\<lambda>x. PagesCreate (getPropertiesFromStar_v2 x)) b,
             calls = calls s + length (concat pre) + length b\<rparr>, Thrown)"
proof -
  have "write_loop (\<lambda>b. [ConsoleLog (Batch_contents b)]) create_v2 rej (pre @ b # post) s =
          (\<lparr>trace = trace s @
              concat (map (batch_done (\<lambda>b. [ConsoleLog (Batch_contents b)]) create_v2) pre) @
              batch_sent (\<lambda>b. [ConsoleLog (Batch_contents b)]) create_v2 b,
            calls = calls s + length (concat pre) + length b\<rparr>, Thrown)"
    using assms(2,3) by (intro write_loop_rejected) simp_all
  then show ?thesis
    by (simp add: createPages_v2_def assms(1) batch_done_create_v2 batch_sent_def create_v2_def)
qed

lemma updatePages_v2_rejected:
  assumes "chunk pages B = pre @ b # post"
    and "\<forall>i<length (concat pre). \<not> rej (calls s + i)"
    and "\<exists>i<length b. rej (calls s + length (concat pre) + i)"
  shows "updatePages_v2 B rej pages s =
           (\<lparr>trace = trace s @
               concat (map (\<lambda>b. map (\<lambda>u. PagesUpdate (update_pageId u)
                                           (getPropertiesFromStar_v2 (star.truncate u))) b @
                                 [ConsoleLog (Completed_batch_size (length b))]) pre) @
               map (\<lambda>u. PagesUpdate (update_pageId u)
                          (getPropertiesFromStar_v2 (star.truncate u))) b,
             calls = calls s + length (concat pre) + length b\<rparr>, Thrown)"
proof -
  have "write_loop (\<lambda>b. []) update_v2 rej (pre @ b # post) s =
          (\<lparr>trace = trace s @ concat (map (batch_done (\<lambda>b. []) update_v2) pre) @
              batch_sent (\<lambda>b. []) update_v2 b,
            calls = calls s + length (concat pre) + length b\<rparr>, Thrown)"
    using assms(2,3) by (intro write_loop_rejected) simp_all
  then show ?thesis
    by (simp add: updatePages_v2_def assms(1) batch_done_update_v2 batch_sent_def update_v2_def)
qed

lemma createPages_v1_rejected:
  assumes "chunk pages B = pre @ b # post"
    and "\<forall>i<length (concat pre). \<not> rej (calls s + i)"
    and "\<exists>i<length b. rej (calls s + length (concat pre) + i)"
    and "\<forall>x \<in> set pages. labels x \<noteq> None"
  shows "createPages_v1 B rej pages s =
           \<lparr>trace = trace s @
               concat (map (\<lambda>b. map (\<lambda>x. PagesCreate (projr (getPropertiesFromStar_v1 x))) b @
                                 [ConsoleLog (Completed_batch_size (length b))]) pre) @
               map (\<lambda>x. PagesCreate (projr (getPropertiesFromStar_v1 x))) b @
               [ConsoleError Caught_error],
             calls = calls s + length (concat pre) + length b\<rparr>"
proof -
  from chunk_parts [OF assms(1)] assms(4)
  have pre_l: "\<forall>x \<in> set (concat pre). labels x \<noteq> None"
    and b_l: "\<forall>x \<in> set b. labels x \<noteq> None" by blast+
  then have "\<forall>x \<in> set (concat (pre @ [b])). \<not> isl (create_v1 x)"
    by (auto simp: isl_create_v1)
  then have "write_loop (\<lambda>b. []) create_v1 rej (pre @ b # post) s =
          (\<lparr>trace = trace s @ concat (map (batch_done (\<lambda>b. []) create_v1) pre) @
              batch_sent (\<lambda>b. []) create_v1 b,
            calls = calls s + length (concat pre) + length b\<rparr>, Thrown)"
    using assms(2,3) by (rule write_loop_rejected)
  then show ?thesis
    by (simp add: createPages_v1_def assms(1) try_catch_log_def emit_def
          batch_done_create_v1 [OF pre_l] batch_sent_create_v1 [OF b_l])
qed

lemma updatePages_v1_rejected:
  assumes "chunk pages B = pre @ b # post"
    and "\<forall>i<length (concat pre). \<not> rej (calls s + i)"
    and "\<exists>i<length b. rej (calls s + length (concat pre) + i)"
    and "\<forall>u \<in> set pages. labels u \<noteq> None"
  shows "updatePages_v1 B rej pages s =
           \<lparr>trace = trace s @
               concat (map (\<lambda>b. map (\<lambda>u. PagesUpdate (update_pageId u)
                                    (projr (getPropertiesFromStar_v1 (star.truncate u)))) b @
                                 [ConsoleLog (Completed_batch_size (length b))]) pre) @
               map (\<lambda>u. PagesUpdate (update_pageId u)
                          (projr (getPropertiesFromStar_v1 (star.truncate u)))) b @
               [ConsoleError Caught_error],
             calls = calls s + length (concat pre) + length b\<rparr>"
proof -
  from chunk_parts [OF assms(1)] assms(4)
  have pre_l: "\<forall>u \<in> set (concat pre). labels u \<noteq> None"
    and b_l: "\<forall>u \<in> set b. labels u \<noteq> None" by blast+
  then have "\<forall>u \<in> set (concat (pre @ [b])). \<not> isl (update_v1 u)"
    by (auto simp: isl_update_v1)
  then have "write_loop (\<lambda>b. []) update_v1 rej (pre @ b # post) s =
          (\<lparr>trace = trace s @ concat (map (batch_done (\<lambda>b. []) update_v1) pre) @
              batch_sent (\<lambda>b. []) update_v1 b,
            calls = calls s + length (concat pre) + length b\<rparr>, Thrown)"
    using assms(2,3) by (rule write_loop_rejected)
  then show ?thesis
    by (simp add: updatePages_v1_def assms(1) try_catch_log_def emit_def
          batch_done_update_v1 [OF pre_l] batch_sent_update_v1 [OF b_l])
qed

lemma io_trace_update: "(s :: io)\<lparr>trace := X\<rparr> = \<lparr>trace = X, calls = calls s\<rparr>"
  by (cases s) simp

text \<open>
  C4, as the code has it. Let a call of \<^verbatim>\<open>createPages\<close> loop over the chunks
  \<open>pre @ b # post\<close>, no write call of the batches \<open>pre\<close> being rejected and one of the
  batch \<open>b\<close> being rejected, and let a call of \<^verbatim>\<open>updatePages\<close> do the same over
  \<open>upre @ ub # upost\<close>. In the second variant every call of the batch has been made,
  nothing of the later batches is sent, nothing is printed for the failure, and the
  exception leaves the function; when it leaves \<^verbatim>\<open>createPages\<close>,
  \<^verbatim>\<open>syncNotionDatabaseWithGitHub\<close> ends with it, no update having been sent. In the first
  variant, for stars whose \<^verbatim>\<open>labels\<close> are not \<^verbatim>\<open>null\<close> (so that the mapper returns),
  every call of the batch has been made, nothing of the later batches is sent, the failure
  is printed once and the function returns; \<^verbatim>\<open>syncNotionDatabaseWithGitHub\<close> then prints
  the number of updates, calls \<^verbatim>\<open>updatePages\<close> on all of them, prints the line of success
  and returns.
\<close>

theorem rejected_write_ends_the_call:
  assumes "chunk pages B = pre @ b # post"
    and "\<forall>i<length (concat pre). \<not> rej (calls s + i)"
    and "\<exists>i<length b. rej (calls s + length (concat pre) + i)"
    and "chunk updates B = upre @ ub # upost"
    and "\<forall>i<length (concat upre). \<not> rej (calls t + i)"
    and "\<exists>i<length ub. rej (calls t + length (concat upre) + i)"
  shows "createPages_v2 B rej pages s =
           (\<lparr>trace = trace s @
               concat (map (\<lambda>b. ConsoleLog (Batch_contents b) #
                                 map (\<lambda>x. PagesCreate (getPropertiesFromStar_v2 x)) b @
                                 [ConsoleLog (Completed_batch_size (length b))]) pre) @
               ConsoleLog (Batch_contents b) # map (\<lambda>x. PagesCreate (getPropertiesFromStar_v2 x)) b,
             calls = calls s + length (concat pre) + length b\<rparr>, Thrown)
       \<and> updatePages_v2 B rej updates t =
           (\<lparr>trace = trace t @
               concat (map (\<lambda>b. map (\<lambda>u. PagesUpdate (update_pageId u)
                                           (getPropertiesFromStar_v2 (star.truncate u))) b @
                                 [ConsoleLog (Completed_batch_size (length b))]) upre) @
               map (\<lambda>u. PagesUpdate (update_pageId u)
                          (getPropertiesFromStar_v2 (star.truncate u))) ub,
             calls = calls t + length (concat upre) + length ub\<rparr>, Thrown)
       \<and> ((\<forall>x \<in> set pages. labels x \<noteq> None) \<longrightarrow>
            createPages_v1 B rej pages s =
              \<lparr>trace = trace s @
                   concat (map (\<lambda>b. map (\<lambda>x. PagesCreate (projr (getPropertiesFromStar_v1 x))) b @
                                     [ConsoleLog (Completed_batch_size (length b))]) pre) @
                   map (\<lambda>x. PagesCreate (projr (getPropertiesFromStar_v1 x))) b @
                   [ConsoleError Caught_error],
               calls = calls s + length (concat pre) + length b\<rparr>)
       \<and> ((\<forall>u \<in> set updates. labels u \<noteq> None) \<longrightarrow>
            updatePages_v1 B rej updates t =
              \<lparr>trace = trace t @
                   concat (map (\<lambda>b. map (\<lambda>u. PagesUpdate (update_pageId u)
                                        (projr (getPropertiesFromStar_v1 (star.truncate u)))) b @
                                     [ConsoleLog (Completed_batch_size (length b))]) upre) @
                   map (\<lambda>u. PagesUpdate (update_pageId u)
                              (projr (getPropertiesFromStar_v1 (star.truncate u)))) ub @
                   [ConsoleError Caught_error],
               calls = calls t + length (concat upre) + length ub\<rparr>)
       \<and> (B = OPERATION_BATCH_SIZE_v2 \<and> rej = rejected w
            \<and> pages = pagesToCreate (getNotionOperations m (concat (starred_pages w))) \<longrightarrow>
            syncNotionDatabaseWithGitHub_v2 m w s =
              (\<lparr>trace = trace s @ ConsoleLog Fetching_stars #
                   map (\<lambda>page. ListReposStarred) (starred_pages w) @
                   [ConsoleLog (Fetched_stars (length (concat (starred_pages w)))),
                    ConsoleLog (New_stars_to_add (length pages))] @
                   concat (map (\<lambda>b. ConsoleLog (Batch_contents b) #
                                     map (\<lambda>x. PagesCreate (getPropertiesFromStar_v2 x)) b @
                                     [ConsoleLog (Completed_batch_size (length b))]) pre) @
                   ConsoleLog (Batch_contents b) #
                   map (\<lambda>x. PagesCreate (getPropertiesFromStar_v2 x)) b,
                 calls = calls s + length (concat pre) + length b\<rparr>, Thrown))
       \<and> (B = OPERATION_BATCH_SIZE_v1 \<and> rej = rejected w
            \<and> pages = pagesToCreate (getNotionOperations m (concat (starred_pages w)))
            \<and> (\<forall>x \<in> set pages. labels x \<noteq> None) \<longrightarrow>
            syncNotionDatabaseWithGitHub_v1 m w s =
              (emit (ConsoleLog Database_is_synced)
                 (updatePages_v1 OPERATION_BATCH_SIZE_v1 (rejected w)
                    (pagesToUpdate (getNotionOperations m (concat (starred_pages w))))
                    \<lparr>trace = trace s @ ConsoleLog Fetching_stars #
                       map (\<lambda>page. ListReposStarred) (starred_pages w) @
                       [ConsoleLog (Fetched_stars (length (concat (starred_pages w)))),
                        ConsoleLog (New_stars_to_add (length pages))] @
                       concat (map (\<lambda>b. map (\<lambda>x. PagesCreate (projr (getPropertiesFromStar_v1 x))) b @
                                         [ConsoleLog (Completed_batch_size (length b))]) pre) @
                       map (\<lambda>x. PagesCreate (projr (getPropertiesFromStar_v1 x))) b @
                       [ConsoleError Caught_error,
                        ConsoleLog (Stars_to_update (length (pagesToUpdate
                          (getNotionOperations m (concat (starred_pages w))))))],
                     calls = calls s + length (concat pre) + length b\<rparr>),
               Normal))"
proof (intro conjI impI)
  show "createPages_v2 B rej pages s =
           (\<lparr>trace = trace s @
               concat (map (\<lambda>b. ConsoleLog (Batch_contents b) #
                                 map (\<lambda>x. PagesCreate (getPropertiesFromStar_v2 x)) b @
                                 [ConsoleLog (Completed_batch_size (length b))]) pre) @
               ConsoleLog (Batch_contents b) # map (\<lambda>x. PagesCreate (getPropertiesFromStar_v2 x)) b,
             calls = calls s + length (concat pre) + length b\<rparr>, Thrown)"
    using assms(1-3) by (rule createPages_v2_rejected)
  show "updatePages_v2 B rej updates t =
           (\<lparr>trace = trace t @
               concat (map (\<lambda>b. map (\<lambda>u. PagesUpdate (update_pageId u)
                                           (getPropertiesFromStar_v2 (star.truncate u))) b @
                                 [ConsoleLog (Completed_batch_size (length b))]) upre) @
               map (\<lambda>u. PagesUpdate (update_pageId u)
                          (getPropertiesFromStar_v2 (star.truncate u))) ub,
             calls = calls t + length (concat upre) + length ub\<rparr>, Thrown)"
    using assms(4-6) by (rule updatePages_v2_rejected)
  show "createPages_v1 B rej pages s =
              \<lparr>trace = trace s @
                   concat (map (\<lambda>b. map (\<lambda>x. PagesCreate (projr (getPropertiesFromStar_v1 x))) b @
                                     [ConsoleLog (Completed_batch_size (length b))]) pre) @
                   map (\<lambda>x. PagesCreate (projr (getPropertiesFromStar_v1 x))) b @
                   [ConsoleError Caught_error],
               calls = calls s + length (concat pre) + length b\<rparr>"
    if "\<forall>x \<in> set pages. labels x \<noteq> None"
    using assms(1-3) that by (rule createPages_v1_rejected)
  show "updatePages_v1 B rej updates t =
              \<lparr>trace = trace t @
                   concat (map (\<lambda>b. map (\<lambda>u. PagesUpdate (update_pageId u)
                                        (projr (getPropertiesFromStar_v1 (star.truncate u)))) b @
                                     [ConsoleLog (Completed_batch_size (length b))]) upre) @
                   map (\<lambda>u. PagesUpdate (update_pageId u)
                              (projr (getPropertiesFromStar_v1 (star.truncate u)))) ub @
                   [ConsoleError Caught_error],
               calls = calls t + length (concat upre) + length ub\<rparr>"
    if "\<forall>u \<in> set updates. labels u \<noteq> None"
    using assms(4-6) that by (rule updatePages_v1_rejected)
next
  assume run: "B = OPERATION_BATCH_SIZE_v2 \<and> rej = rejected w
    \<and> pages = pagesToCreate (getNotionOperations m (concat (starred_pages w)))"
  let ?s3 = "\<lparr>trace = trace s @ ConsoleLog Fetching_stars #
                 map (\<lambda>page. ListReposStarred) (starred_pages w) @
                 [ConsoleLog (Fetched_stars (length (concat (starred_pages w)))),
                  ConsoleLog (New_stars_to_add (length pages))],
               calls = calls s\<rparr>"
  have "createPages_v2 B rej pages ?s3 =
          (\<lparr>trace = trace ?s3 @
              concat (map (\<lambda>b. ConsoleLog (Batch_contents b) #
                                map (\<lambda>x. PagesCreate (getPropertiesFromStar_v2 x)) b @
                                [ConsoleLog (Completed_batch_size (length b))]) pre) @
              ConsoleLog (Batch_contents b) # map (\<lambda>x. PagesCreate (getPropertiesFromStar_v2 x)) b,
            calls = calls ?s3 + length (concat pre) + length b\<rparr>, Thrown)"
    using assms(1-3) by (intro createPages_v2_rejected) simp_all
  then show "syncNotionDatabaseWithGitHub_v2 m w s =
              (\<lparr>trace = trace s @ ConsoleLog Fetching_stars #
                   map (\<lambda>page. ListReposStarred) (starred_pages w) @
                   [ConsoleLog (Fetched_stars (length (concat (starred_pages w)))),
                    ConsoleLog (New_stars_to_add (length pages))] @
                   concat (map (\<lambda>b. ConsoleLog (Batch_contents b) #
                                     map (\<lambda>x. PagesCreate (getPropertiesFromStar_v2 x)) b @
                                     [ConsoleLog (Completed_batch_size (length b))]) pre) @
                   ConsoleLog (Batch_contents b) #
                   map (\<lambda>x. PagesCreate (getPropertiesFromStar_v2 x)) b,
                 calls = calls s + length (concat pre) + length b\<rparr>, Thrown)"
    using run
    by (simp add: syncNotionDatabaseWithGitHub_v2_def Let_def emit_def
          getGitHubStarsForUser_def io_trace_update)
next
  assume run: "B = OPERATION_BATCH_SIZE_v1 \<and> rej = rejected w
    \<and> pages = pagesToCreate (getNotionOperations m (concat (starred_pages w)))
    \<and> (\<forall>x \<in> set pages. labels x \<noteq> None)"
  let ?s3 = "\<lparr>trace = trace s @ ConsoleLog Fetching_stars #
                 map (\<lambda>page. ListReposStarred) (starred_pages w) @
                 [ConsoleLog (Fetched_stars (length (concat (starred_pages w)))),
                  ConsoleLog (New_stars_to_add (length pages))],
               calls = calls s\<rparr>"
  from run have labelled: "\<forall>x \<in> set pages. labels x \<noteq> None" by simp
  have "createPages_v1 B rej pages ?s3 =
          \<lparr>trace = trace ?s3 @
              concat (map (\<lambda>b. map (\<lambda>x. PagesCreate (projr (getPropertiesFromStar_v1 x))) b @
                                [ConsoleLog (Completed_batch_size (length b))]) pre) @
              map (\<lambda>x. PagesCreate (projr (getPropertiesFromStar_v1 x))) b @
              [ConsoleError Caught_error],
            calls = calls ?s3 + length (concat pre) + length b\<rparr>"
    using assms(1-3) labelled by (intro createPages_v1_rejected) simp_all
  then show "syncNotionDatabaseWithGitHub_v1 m w s =
              (emit (ConsoleLog Database_is_synced)
                 (updatePages_v1 OPERATION_BATCH_SIZE_v1 (rejected w)
                    (pagesToUpdate (getNotionOperations m (concat (starred_pages w))))
                    \<lparr>trace = trace s @ ConsoleLog Fetching_stars #
                       map (\<lambda>page. ListReposStarred) (starred_pages w) @
                       [ConsoleLog (Fetched_stars (length (concat (starred_pages w)))),
                        ConsoleLog (New_stars_to_add (length pages))] @
                       concat (map (\<lambda>b. map (\<lambda>x. PagesCreate (projr (getPropertiesFromStar_v1 x))) b @
                                         [ConsoleLog (Completed_batch_size (length b))]) pre) @
                       map (\<lambda>x. PagesCreate (projr (getPropertiesFromStar_v1 x))) b @
                       [ConsoleError Caught_error,
                        ConsoleLog (Stars_to_update (length (pagesToUpdate
                          (getNotionOperations m (concat (starred_pages w))))))],
                     calls = calls s + length (concat pre) + length b\<rparr>),
               Normal)"
    using run
    by (simp add: syncNotionDatabaseWithGitHub_v1_def Let_def emit_def
          getGitHubStarsForUser_def io_trace_update)
qed

lemma update_v1_star_x:
  "update_v1 (star.extend star_x (page_update.fields p)) =
     Inr (PagesUpdate p (projr (getPropertiesFromStar_v1 star_x)))"
  by (simp add: update_v1_def getPropertiesFromStar_v1_def star_x_def Let_def star.defs page_update.defs)

lemma labels_update_x: "labels update_x = labels star_x" "star.truncate update_x = star_x"
  "update_pageId update_x = ''p1''"
  by (simp_all add: update_x_def star.defs page_update.defs)

lemma update_v1_update_x:
  "update_v1 update_x = Inr (PagesUpdate ''p1'' (projr (getPropertiesFromStar_v1 star_x)))"
  by (simp add: update_x_def update_v1_star_x)

lemma operations_of_world_first_rejected:
  "getNotionOperations [42 \<mapsto> ''p1''] [star_y, star_x] =
     \<lparr>pagesToCreate = [star_y], pagesToUpdate = [update_x]\<rparr>"
  by (simp add: getNotionOperations_def id_star_x id_star_y update_x_def)

theorem rejected_write_ends_the_call_witness:
  "chunk [star_x, star_x, star_x] 2 = [] @ [star_x, star_x] # [[star_x]]
   \<and> createPages_v2 2 first_rejected [star_x, star_x, star_x] \<lparr>trace = [], calls = 0\<rparr> =
       (\<lparr>trace = [ConsoleLog (Batch_contents [star_x, star_x]),
                  PagesCreate (getPropertiesFromStar_v2 star_x),
                  PagesCreate (getPropertiesFromStar_v2 star_x)],
          calls = 2\<rparr>, Thrown)
   \<and> updatePages_v2 2 first_rejected [update_x, update_x, update_x] \<lparr>trace = [], calls = 0\<rparr> =
       (\<lparr>trace = [PagesUpdate ''p1'' (getPropertiesFromStar_v2 star_x),
                  PagesUpdate ''p1'' (getPropertiesFromStar_v2 star_x)],
          calls = 2\<rparr>, Thrown)
   \<and> createPages_v1 2 first_rejected [star_x, star_x, star_x] \<lparr>trace = [], calls = 0\<rparr> =
       \<lparr>trace = [PagesCreate (projr (getPropertiesFromStar_v1 star_x)),
                 PagesCreate (projr (getPropertiesFromStar_v1 star_x)),
                 ConsoleError Caught_error],
        calls = 2\<rparr>
   \<and> updatePages_v1 2 first_rejected [update_x, update_x, update_x] \<lparr>trace = [], calls = 0\<rparr> =
       \<lparr>trace = [PagesUpdate ''p1'' (projr (getPropertiesFromStar_v1 star_x)),
                 PagesUpdate ''p1'' (projr (getPropertiesFromStar_v1 star_x)),
                 ConsoleError Caught_error],
        calls = 2\<rparr>
   \<and> syncNotionDatabaseWithGitHub_v2 [42 \<mapsto> ''p1''] world_first_rejected
         \<lparr>trace = [], calls = 0\<rparr> =
       (\<lparr>trace = [ConsoleLog Fetching_stars, ListReposStarred, ConsoleLog (Fetched_stars 2),
                  ConsoleLog (New_stars_to_add 1), ConsoleLog (Batch_contents [star_y]),
                  PagesCreate (getPropertiesFromStar_v2 star_y)],
          calls = 1\<rparr>, Thrown)
   \<and> syncNotionDatabaseWithGitHub_v1 [42 \<mapsto> ''p1''] world_first_rejected
         \<lparr>trace = [], calls = 0\<rparr> =
       (\<lparr>trace = [ConsoleLog Fetching_stars, ListReposStarred, ConsoleLog (Fetched_stars 2),
                  ConsoleLog (New_stars_to_add 1),
                  PagesCreate (projr (getPropertiesFromStar_v1 star_y)),
                  ConsoleError Caught_error, ConsoleLog (Stars_to_update 1),
                  PagesUpdate ''p1'' (projr (getPropertiesFromStar_v1 star_x)),
                  ConsoleLog (Completed_batch_size 1), ConsoleLog Database_is_synced],
          calls = 2\<rparr>, Normal)"
proof -
  let ?s0 = "\<lparr>trace = [], calls = 0\<rparr>"
  have split: "chunk [star_x, star_x, star_x] 2 = [] @ [star_x, star_x] # [[star_x]]"
    and usplit: "chunk [update_x, update_x, update_x] 2 = [] @ [update_x, update_x] # [[update_x]]"
    by (simp_all add: chunk.simps)
  have quiet: "\<forall>i<length (concat ([] :: 'a list list)). \<not> first_rejected (calls ?s0 + i)"
    by simp
  have loud: "\<exists>i<length [star_x, star_x]. first_rejected (calls ?s0 + length (concat ([] :: star list list)) + i)"
    and uloud: "\<exists>i<length [update_x, update_x].
        first_rejected (calls ?s0 + length (concat ([] :: page_update list list)) + i)"
    by (simp_all add: first_rejected_def)
  have labelled: "\<forall>x \<in> set [star_x, star_x, star_x]. labels x \<noteq> None"
    "\<forall>u \<in> set [update_x, update_x, update_x]. labels u \<noteq> None"
    "\<forall>x \<in> set [star_y]. labels x \<noteq> None"
    by (simp_all add: labels_update_x star_x_def star_y_def)
  have calls_results:
    "createPages_v2 2 first_rejected [star_x, star_x, star_x] ?s0 =
       (\<lparr>trace = [ConsoleLog (Batch_contents [star_x, star_x]),
                  PagesCreate (getPropertiesFromStar_v2 star_x),
                  PagesCreate (getPropertiesFromStar_v2 star_x)],
          calls = 2\<rparr>, Thrown)
     \<and> updatePages_v2 2 first_rejected [update_x, update_x, update_x] ?s0 =
       (\<lparr>trace = [PagesUpdate ''p1'' (getPropertiesFromStar_v2 star_x),
                  PagesUpdate ''p1'' (getPropertiesFromStar_v2 star_x)],
          calls = 2\<rparr>, Thrown)
     \<and> createPages_v1 2 first_rejected [star_x, star_x, star_x] ?s0 =
       \<lparr>trace = [PagesCreate (projr (getPropertiesFromStar_v1 star_x)),
                 PagesCreate (projr (getPropertiesFromStar_v1 star_x)),
                 ConsoleError Caught_error],
        calls = 2\<rparr>
     \<and> updatePages_v1 2 first_rejected [update_x, update_x, update_x] ?s0 =
       \<lparr>trace = [PagesUpdate ''p1'' (projr (getPropertiesFromStar_v1 star_x)),
                 PagesUpdate ''p1'' (projr (getPropertiesFromStar_v1 star_x)),
                 ConsoleError Caught_error],
        calls = 2\<rparr>"
    using rejected_write_ends_the_call [OF split quiet loud usplit quiet uloud] labelled
    by (simp add: labels_update_x)
  have one: "chunk [star_y] OPERATION_BATCH_SIZE_v2 = [] @ [star_y] # []"
    "chunk [star_y] OPERATION_BATCH_SIZE_v1 = [] @ [star_y] # []"
    "chunk [update_x] OPERATION_BATCH_SIZE_v2 = [] @ [update_x] # []"
    "chunk [update_x] OPERATION_BATCH_SIZE_v1 = [] @ [update_x] # []"
    by (simp_all add: chunk.simps OPERATION_BATCH_SIZE_v1_def OPERATION_BATCH_SIZE_v2_def)
  have loud1: "\<exists>i<length [star_y]. first_rejected (calls ?s0 + length (concat ([] :: star list list)) + i)"
    and uloud1: "\<exists>i<length [update_x].
        first_rejected (calls ?s0 + length (concat ([] :: page_update list list)) + i)"
    by (simp_all add: first_rejected_def)
  have world: "rejected world_first_rejected = first_rejected"
    "starred_pages world_first_rejected = [[star_y, star_x]]"
    by (simp_all add: world_first_rejected_def)
  have second: "syncNotionDatabaseWithGitHub_v2 [42 \<mapsto> ''p1''] world_first_rejected ?s0 =
       (\<lparr>trace = [ConsoleLog Fetching_stars, ListReposStarred, ConsoleLog (Fetched_stars 2),
                  ConsoleLog (New_stars_to_add 1), ConsoleLog (Batch_contents [star_y]),
                  PagesCreate (getPropertiesFromStar_v2 star_y)],
          calls = 1\<rparr>, Thrown)"
    using rejected_write_ends_the_call [OF one(1) quiet loud1 one(3) quiet uloud1,
        where w = world_first_rejected and m = "[42 \<mapsto> ''p1'']"]
    by (simp add: operations_of_world_first_rejected world)
  have after_create: "updatePages_v1 OPERATION_BATCH_SIZE_v1 first_rejected [update_x]
         \<lparr>trace = tr, calls = Suc 0\<rparr> =
       \<lparr>trace = tr @ [PagesUpdate ''p1'' (projr (getPropertiesFromStar_v1 star_x)),
                      ConsoleLog (Completed_batch_size 1)],
        calls = 2\<rparr>" for tr
    by (simp add: updatePages_v1_def one(4) update_v1_update_x call_def emit_def
          await_all_def first_rejected_def try_catch_log_def)
  have first: "syncNotionDatabaseWithGitHub_v1 [42 \<mapsto> ''p1''] world_first_rejected ?s0 =
       (\<lparr>trace = [ConsoleLog Fetching_stars, ListReposStarred, ConsoleLog (Fetched_stars 2),
                  ConsoleLog (New_stars_to_add 1),
                  PagesCreate (projr (getPropertiesFromStar_v1 star_y)),
                  ConsoleError Caught_error, ConsoleLog (Stars_to_update 1),
                  PagesUpdate ''p1'' (projr (getPropertiesFromStar_v1 star_x)),
                  ConsoleLog (Completed_batch_size 1), ConsoleLog Database_is_synced],
          calls = 2\<rparr>, Normal)"
    using rejected_write_ends_the_call [OF one(2) quiet loud1 one(4) quiet uloud1,
        where w = world_first_rejected and m = "[42 \<mapsto> ''p1'']"] labelled(3)
    by (simp add: operations_of_world_first_rejected world after_create emit_def)
  from split calls_results second first show ?thesis by simp
qed

lemma create_v1_star_x:
  "create_v1 star_x = Inr (PagesCreate (projr (getPropertiesFromStar_v1 star_x)))"
  by (simp add: create_v1_def getPropertiesFromStar_v1_def star_x_def Let_def)

text \<open>
  The claim as the specification words it fails in both variants. With the batch size 1
  of the first variant and the first write call rejected, the second batch of
  \<^verbatim>\<open>createPages\<close> is never sent. In the second variant the rejected call is not caught:
  it leaves \<^verbatim>\<open>createPages\<close> and the run, and the update that was due is never sent.
\<close>

theorem rejected_write_counterexample:
  "chunk [star_x, star_y] OPERATION_BATCH_SIZE_v1 = [[star_x], [star_y]]
   \<and> createPages_v1 OPERATION_BATCH_SIZE_v1 first_rejected [star_x, star_y]
         \<lparr>trace = [], calls = 0\<rparr> =
       \<lparr>trace = [PagesCreate (projr (getPropertiesFromStar_v1 star_x)), ConsoleError Caught_error],
        calls = 1\<rparr>
   \<and> filter is_network (trace (fst (main_v2
         [''GH_STARS_USER'' \<mapsto> ''u'', ''GH_USER_TOKEN'' \<mapsto> ''t'', ''NOTION_KEY'' \<mapsto> ''k'',
          ''NOTION_DATABASE_ID'' \<mapsto> ''d''] world_first_rejected))) =
       [DatabasesQuery None, ListReposStarred, PagesCreate (getPropertiesFromStar_v2 star_y)]
   \<and> snd (main_v2
         [''GH_STARS_USER'' \<mapsto> ''u'', ''GH_USER_TOKEN'' \<mapsto> ''t'', ''NOTION_KEY'' \<mapsto> ''k'',
          ''NOTION_DATABASE_ID'' \<mapsto> ''d''] world_first_rejected) = Unhandled_rejection
   \<and> map star.truncate (pagesToUpdate (getNotionOperations [42 \<mapsto> ''p1''] [star_y, star_x])) =
       [star_x]"
proof (intro conjI)
  show "chunk [star_x, star_y] OPERATION_BATCH_SIZE_v1 = [[star_x], [star_y]]"
    by (simp add: chunk.simps OPERATION_BATCH_SIZE_v1_def)
  show "createPages_v1 OPERATION_BATCH_SIZE_v1 first_rejected [star_x, star_y]
         \<lparr>trace = [], calls = 0\<rparr> =
       \<lparr>trace = [PagesCreate (projr (getPropertiesFromStar_v1 star_x)), ConsoleError Caught_error],
        calls = 1\<rparr>"
    by (simp add: createPages_v1_def chunk.simps OPERATION_BATCH_SIZE_v1_def create_v1_star_x
          call_def emit_def await_all_def first_rejected_def try_catch_log_def)
  have run: "main_v2
         [''GH_STARS_USER'' \<mapsto> ''u'', ''GH_USER_TOKEN'' \<mapsto> ''t'', ''NOTION_KEY'' \<mapsto> ''k'',
          ''NOTION_DATABASE_ID'' \<mapsto> ''d''] world_first_rejected =
       (\<lparr>trace = [DatabasesQuery None, ConsoleLog (Stars_fetched_from_Notion 1),
                  ConsoleLog Fetching_stars, ListReposStarred, ConsoleLog (Fetched_stars 2),
                  ConsoleLog (New_stars_to_add 1), ConsoleLog (Batch_contents [star_y]),
                  PagesCreate (getPropertiesFromStar_v2 star_y)],
          calls = 1\<rparr>, Unhandled_rejection)"
    by (simp add: main_v2_def environment_complete_def truthy_def world_first_rejected_def
          getStarsFromNotionDatabase_def emit_def syncNotionDatabaseWithGitHub_v2_def
          getGitHubStarsForUser_def getNotionOperations_def star_x_def [symmetric]
          createPages_v2_def chunk.simps OPERATION_BATCH_SIZE_v2_def create_v2_def call_def
          await_all_def first_rejected_def id_star_x id_star_y)
  show "filter is_network (trace (fst (main_v2
         [''GH_STARS_USER'' \<mapsto> ''u'', ''GH_USER_TOKEN'' \<mapsto> ''t'', ''NOTION_KEY'' \<mapsto> ''k'',
          ''NOTION_DATABASE_ID'' \<mapsto> ''d''] world_first_rejected))) =
       [DatabasesQuery None, ListReposStarred, PagesCreate (getPropertiesFromStar_v2 star_y)]"
    by (simp add: run)
  show "snd (main_v2
         [''GH_STARS_USER'' \<mapsto> ''u'', ''GH_USER_TOKEN'' \<mapsto> ''t'', ''NOTION_KEY'' \<mapsto> ''k'',
          ''NOTION_DATABASE_ID'' \<mapsto> ''d''] world_first_rejected) = Unhandled_rejection"
    by (simp add: run)
  show "map star.truncate (pagesToUpdate (getNotionOperations [42 \<mapsto> ''p1''] [star_y, star_x])) =
       [star_x]"
    by (simp add: getNotionOperations_def id_star_x id_star_y)
qed

section \<open>Properties of the start of the run\<close>

text \<open>
  C8. When one of the four environment variables is missing (or is the empty string),
  the second variant prints the error, ends with the exit status 1, and has made no
  request over the network: nothing of the run has happened.
\<close>

theorem missing_environment_exits:
  assumes "\<not> truthy (env ''GH_STARS_USER'') \<or> \<not> truthy (env ''GH_USER_TOKEN'')
         \<or> \<not> truthy (env ''NOTION_KEY'') \<or> \<not> truthy (env ''NOTION_DATABASE_ID'')"
  shows "main_v2 env w =
           (\<lparr>trace = [ConsoleError Missing_environment_variable], calls = 0\<rparr>, Exit 1)
       \<and> filter is_network (trace (fst (main_v2 env w))) = []
       \<and> snd (main_v2 env w) \<noteq> Exit 0"
  using assms by (auto simp: main_v2_def environment_complete_def)

theorem missing_environment_exits_witness:
  "env_without_user ''GH_STARS_USER'' = None
   \<and> main_v2 env_without_user world_first_rejected =
       (\<lparr>trace = [ConsoleError Missing_environment_variable], calls = 0\<rparr>, Exit 1)"
  using missing_environment_exits [of env_without_user world_first_rejected]
  by (simp add: env_without_user_def truthy_def)

end
